theory Spec2Isabelle
  imports Complex_Main
begin

section \<open>JavaScript values\<close>

text \<open>
  The dashboard's two modules (\<^verbatim>\<open>api-client.js\<close> and \<^verbatim>\<open>charts.js\<close>) handle numbers,
  strings and the values that \<^verbatim>\<open>response.json()\<close> produces. A finite number is given
  by its exact value, a rational; the arithmetic operations round their result to
  binary64 (see the section on arithmetic). The three non-finite values are apart, and
  \<^verbatim>\<open>-0\<close> is identified with \<^verbatim>\<open>0\<close>: the two print the same digits under \<^verbatim>\<open>toFixed\<close>.
\<close>

datatype jsnum = Fin rat | NaN | PosInf | NegInf

datatype jsval =
    JUndefined
  | JNull
  | JBool bool
  | JNum jsnum
  | JStr string
  | JArr "jsval list"
  | JObj "(string \<times> jsval) list"

text \<open>What a \<^verbatim>\<open>throw\<close> or a rejected promise carries.\<close>

datatype js_error =
    NetworkError
  | ApiError nat string
  | SyntaxError
  | TypeError
  | ChartError

fun typeof :: "jsval \<Rightarrow> string" where
  "typeof JUndefined = ''undefined''"
| "typeof JNull = ''object''"
| "typeof (JBool b) = ''boolean''"
| "typeof (JNum n) = ''number''"
| "typeof (JStr s) = ''string''"
| "typeof (JArr xs) = ''object''"
| "typeof (JObj kvs) = ''object''"

fun truthy :: "jsval \<Rightarrow> bool" where
  "truthy JUndefined = False"
| "truthy JNull = False"
| "truthy (JBool b) = b"
| "truthy (JNum n) = (n \<noteq> NaN \<and> n \<noteq> Fin 0)"
| "truthy (JStr s) = (s \<noteq> [])"
| "truthy (JArr xs) = True"
| "truthy (JObj kvs) = True"

text \<open>
  \<^verbatim>\<open>o.k\<close> for the property names the source reads (none of them is a built-in
  property of a string, an array or a number): a \<^verbatim>\<open>TypeError\<close> on \<^verbatim>\<open>null\<close> and
  \<^verbatim>\<open>undefined\<close>, \<^verbatim>\<open>undefined\<close> where the property is missing.
\<close>

fun get_prop :: "jsval \<Rightarrow> string \<Rightarrow> js_error + jsval" where
  "get_prop JUndefined k = Inl TypeError"
| "get_prop JNull k = Inl TypeError"
| "get_prop (JObj kvs) k = Inr (case map_of kvs k of None \<Rightarrow> JUndefined | Some v \<Rightarrow> v)"
| "get_prop v k = Inr JUndefined"

text \<open>The value of \<^verbatim>\<open>o.k\<close> where the read does not throw.\<close>

definition prop_of :: "jsval \<Rightarrow> string \<Rightarrow> jsval" where
  "prop_of v k = (case get_prop v k of Inl err \<Rightarrow> JUndefined | Inr x \<Rightarrow> x)"

text \<open>\<^verbatim>\<open>{...o, k: v}\<close> and \<^verbatim>\<open>o.k = v\<close> on the properties of an object.\<close>

fun set_prop :: "string \<Rightarrow> jsval \<Rightarrow> (string \<times> jsval) list \<Rightarrow> (string \<times> jsval) list" where
  "set_prop k v [] = [(k, v)]"
| "set_prop k v (p # ps) = (if fst p = k then (k, v) # ps else p # set_prop k v ps)"

section \<open>Number formatting\<close>

definition digit :: "nat \<Rightarrow> char" where
  "digit d = ''0123456789'' ! d"

function dec_digits :: "nat \<Rightarrow> string" where
  "dec_digits n = (if n < 10 then [digit n] else dec_digits (n div 10) @ [digit (n mod 10)])"
  by pat_completeness auto
termination
  by (relation "measure id") auto

declare dec_digits.simps [simp del]

text \<open>
  What the page's host provides and the source only calls: the remote service behind
  \<^verbatim>\<open>fetch\<close>, the locale's number formatting, \<^verbatim>\<open>ToString\<close> (template literals and
  \<^verbatim>\<open>+\<close> with a string), \<^verbatim>\<open>Math.random\<close>, and whether the chart library's constructor
  and its \<^verbatim>\<open>update\<close> throw for a reason the page does not show (a canvas in use is
  seen on the page, and is not part of the host).
\<close>

record request =
  url :: string
  http_method :: string
  body :: "string option"

record response =
  status :: nat
  statusText :: string
  body_text :: string
  json :: "jsval option"

datatype fetch_outcome = Rejected | Responded response

record env =
  fetch :: "request \<Rightarrow> fetch_outcome"
  toLocaleString :: "jsnum \<Rightarrow> string"
  toStr :: "jsval \<Rightarrow> string"
  math_random :: "nat \<Rightarrow> rat"
  chart_throws :: "string \<Rightarrow> bool"
  update_throws :: "nat \<Rightarrow> bool"

text \<open>
  \<^verbatim>\<open>Number.prototype.toFixed\<close>: the digits of the integer \<open>n\<close> for which
  \<open>n / 10 ^ f\<close> is closest to the number, the larger \<open>n\<close> on a tie; the sign apart;
  \<^verbatim>\<open>ToString\<close> from \<open>10 ^ 21\<close> on and for the non-finite values.
\<close>

definition fixed_digits :: "nat \<Rightarrow> nat \<Rightarrow> string" where
  "fixed_digits f n =
     (let m = dec_digits n in
      if f = 0 then m
      else
        let m' = (if length m \<le> f then replicate (f + 1 - length m) CHR ''0'' @ m else m);
            k = length m'
        in take (k - f) m' @ ''.'' @ drop (k - f) m')"

definition toFixed :: "env \<Rightarrow> nat \<Rightarrow> jsnum \<Rightarrow> string" where
  "toFixed e f x =
     (case x of
        NaN \<Rightarrow> ''NaN''
      | PosInf \<Rightarrow> ''Infinity''
      | NegInf \<Rightarrow> ''-Infinity''
      | Fin r \<Rightarrow>
          (let s = (if r < 0 then ''-'' else ''''); a = \<bar>r\<bar> in
           if 10 ^ 21 \<le> a then s @ toStr e (JNum (Fin a))
           else s @ fixed_digits f (nat \<lfloor>a * 10 ^ f + 1 / 2\<rfloor>)))"

subsection \<open>The formatting helpers of the API client\<close>

definition formatNumber :: "env \<Rightarrow> jsval \<Rightarrow> jsval" where
  "formatNumber e number =
     (if typeof number = ''number''
      then (case number of JNum n \<Rightarrow> JStr (toLocaleString e n) | _ \<Rightarrow> number)
      else number)"

definition formatPercentage :: "env \<Rightarrow> jsval \<Rightarrow> jsval" where
  "formatPercentage e number =
     (if typeof number = ''number''
      then (case number of JNum n \<Rightarrow> JStr (toFixed e 1 n @ ''%'') | _ \<Rightarrow> number)
      else number)"

section \<open>Arithmetic on numbers\<close>

text \<open>
  The result of an arithmetic operation is a binary64 number: the exact result rounded
  to the nearest number with 53 significant bits, and to the one whose last bit is even
  on a tie. For a positive \<open>x\<close>, \<open>floor_log2 x\<close> is the exponent \<open>k\<close> with
  \<open>2 ^ k \<le> x < 2 ^ (k + 1)\<close>; the binary64 numbers around \<open>x\<close> are the multiples of
  \<open>2 ^ (k - 52)\<close>, and of \<open>2 ^ - 1074\<close> below the normal range. A rounded result of size
  \<open>2 ^ 1024\<close> or more is infinite.
\<close>

fun bits :: "nat \<Rightarrow> nat" where
  "bits n = (if n = 0 then 0 else Suc (bits (n div 2)))"

declare bits.simps [simp del]

definition floor_log2 :: "rat \<Rightarrow> int" where
  "floor_log2 x =
     (if 1 \<le> x then int (bits (nat \<lfloor>x\<rfloor>)) - 1
      else - int (bits (nat (\<lceil>1 / x\<rceil> - 1))))"

definition round_even :: "rat \<Rightarrow> int" where
  "round_even x =
     (let n = \<lfloor>x\<rfloor> in
      if x - of_int n < 1 / 2 then n
      else if 1 / 2 < x - of_int n then n + 1
      else if even n then n else n + 1)"

definition binary64 :: "rat \<Rightarrow> jsnum" where
  "binary64 x =
     (if x = 0 then Fin 0
      else
        let e = max (floor_log2 \<bar>x\<bar> - 52) (- 1074);
            y = of_int (round_even (\<bar>x\<bar> / 2 powi e)) * 2 powi e
        in if 2 ^ 1024 \<le> y then (if 0 < x then PosInf else NegInf)
           else Fin (if 0 < x then y else - y))"

text \<open>
  \<^verbatim>\<open>+\<close>, \<^verbatim>\<open>*\<close> and \<^verbatim>\<open>/\<close> on numbers: the exact result rounded to binary64 on finite
  values, the IEEE rules on the others; a finite number divided by zero is infinite,
  zero by zero is \<^verbatim>\<open>NaN\<close>.
\<close>

fun js_add :: "jsnum \<Rightarrow> jsnum \<Rightarrow> jsnum" where
  "js_add (Fin a) (Fin b) = binary64 (a + b)"
| "js_add NaN y = NaN"
| "js_add x NaN = NaN"
| "js_add PosInf NegInf = NaN"
| "js_add NegInf PosInf = NaN"
| "js_add PosInf y = PosInf"
| "js_add NegInf y = NegInf"
| "js_add (Fin a) y = y"

fun js_scale :: "rat \<Rightarrow> jsnum \<Rightarrow> jsnum" where
  "js_scale a PosInf = (if a = 0 then NaN else if 0 < a then PosInf else NegInf)"
| "js_scale a NegInf = (if a = 0 then NaN else if 0 < a then NegInf else PosInf)"
| "js_scale a NaN = NaN"
| "js_scale a (Fin b) = binary64 (a * b)"

fun js_mul :: "jsnum \<Rightarrow> jsnum \<Rightarrow> jsnum" where
  "js_mul (Fin a) y = js_scale a y"
| "js_mul x (Fin b) = js_scale b x"
| "js_mul NaN y = NaN"
| "js_mul x NaN = NaN"
| "js_mul PosInf y = y"
| "js_mul NegInf PosInf = NegInf"
| "js_mul NegInf NegInf = PosInf"

fun js_div :: "jsnum \<Rightarrow> jsnum \<Rightarrow> jsnum" where
  "js_div (Fin a) (Fin b) =
     (if b \<noteq> 0 then binary64 (a / b)
      else if a = 0 then NaN else if 0 < a then PosInf else NegInf)"
| "js_div NaN y = NaN"
| "js_div x NaN = NaN"
| "js_div (Fin a) y = Fin 0"
| "js_div PosInf (Fin b) = (if 0 \<le> b then PosInf else NegInf)"
| "js_div NegInf (Fin b) = (if 0 \<le> b then NegInf else PosInf)"
| "js_div x y = NaN"

text \<open>\<^verbatim>\<open>Math.floor\<close> and \<^verbatim>\<open>Math.max\<close> of two numbers: both are exact.\<close>

fun js_floor :: "jsnum \<Rightarrow> jsnum" where
  "js_floor (Fin a) = Fin (of_int \<lfloor>a\<rfloor>)"
| "js_floor x = x"

fun js_max :: "jsnum \<Rightarrow> jsnum \<Rightarrow> jsnum" where
  "js_max NaN y = NaN"
| "js_max x NaN = NaN"
| "js_max PosInf y = PosInf"
| "js_max x PosInf = PosInf"
| "js_max NegInf y = y"
| "js_max x NegInf = x"
| "js_max (Fin a) (Fin b) = Fin (max a b)"

section \<open>The page\<close>

text \<open>
  The state the two modules share: the elements of the document by id (their
  \<^verbatim>\<open>innerHTML\<close>, as the value assigned), the lines written by \<^verbatim>\<open>console.error\<close> and
  \<^verbatim>\<open>console.warn\<close> (\<^verbatim>\<open>console.log\<close> is not recorded), the chart objects the library has
  constructed, by reference, the interval timers, and the two global managers.
\<close>

datatype level = LogError | LogWarn

datatype callback = RefreshAllMetrics | UpdateAllCharts

record tooltip_context =
  ctx_label :: string
  parsed :: jsnum
  parsed_y :: jsnum
  dataset_data :: "jsnum list"

record chart =
  canvas :: string
  ctype :: string
  labels :: jsval
  datasets :: "(string \<times> jsval) list list"
  y_beginAtZero :: bool
  y_max :: "jsnum option"
  tooltip_label :: "(env \<Rightarrow> tooltip_context \<Rightarrow> string) option"
  destroyed :: bool

text \<open>
  An entry of the registry \<^verbatim>\<open>this.charts\<close>: a reference to a chart object, or one of
  the values without a \<^verbatim>\<open>destroy\<close> function: \<^verbatim>\<open>null\<close>, \<^verbatim>\<open>undefined\<close>, and the object
  \<^verbatim>\<open>{}\<close> with no property at all.
\<close>

datatype entry = Ref nat | Null | Undefined | EmptyObject

record MetricsRefreshManager =
  intervalMs :: nat
  intervalId :: "nat option"

record HealthcareChartsManager =
  charts :: "(string \<times> entry) list"
  updateInterval :: "nat option"

record window =
  elements :: "string \<rightharpoonup> jsval"
  console :: "(level \<times> string) list"
  heap :: "nat \<Rightarrow> chart"
  next_chart :: nat
  timers :: "nat \<rightharpoonup> callback \<times> nat"
  next_timer :: nat
  metricsManager :: MetricsRefreshManager
  chartsManager :: HealthcareChartsManager

subsection \<open>Statements that may throw\<close>

text \<open>
  A statement runs on the page and ends with a value or with a thrown error; what it
  changed before throwing stays changed. An \<^verbatim>\<open>await\<close> is sequencing: one call is
  followed from its start to its end, with no other task in between.
\<close>

type_synonym 'a js = "window \<Rightarrow> (js_error + 'a) \<times> window"

definition return_js :: "'a \<Rightarrow> 'a js" where
  "return_js x w = (Inr x, w)"

definition throw_js :: "js_error \<Rightarrow> 'a js" where
  "throw_js err w = (Inl err, w)"

definition lift_js :: "js_error + 'a \<Rightarrow> 'a js" where
  "lift_js r w = (r, w)"

definition bind_js :: "'a js \<Rightarrow> ('a \<Rightarrow> 'b js) \<Rightarrow> 'b js" where
  "bind_js m f w = (case m w of (Inl err, w') \<Rightarrow> (Inl err, w') | (Inr x, w') \<Rightarrow> f x w')"

definition catch_js :: "'a js \<Rightarrow> (js_error \<Rightarrow> 'a js) \<Rightarrow> 'a js" where
  "catch_js m h w = (case m w of (Inl err, w') \<Rightarrow> h err w' | (Inr x, w') \<Rightarrow> (Inr x, w'))"

fun run_all :: "unit js list \<Rightarrow> unit js" where
  "run_all [] = return_js ()"
| "run_all (m # ms) = bind_js m (\<lambda>_. run_all ms)"

definition console_error :: "string \<Rightarrow> unit js" where
  "console_error msg w = (Inr (), w\<lparr>console := console w @ [(LogError, msg)]\<rparr>)"

definition console_warn :: "string \<Rightarrow> unit js" where
  "console_warn msg w = (Inr (), w\<lparr>console := console w @ [(LogWarn, msg)]\<rparr>)"

section \<open>The API client\<close>

record HealthcareAPIClient =
  baseURL :: string

record options =
  opt_method :: "string option"
  opt_body :: "string option"

definition no_options :: options where
  "no_options = \<lparr>opt_method = None, opt_body = None\<rparr>"

text \<open>\<^verbatim>\<open>response.ok\<close>: the status is in the range 200 to 299.\<close>

definition ok :: "response \<Rightarrow> bool" where
  "ok r = (200 \<le> status r \<and> status r \<le> 299)"

definition await_fetch :: "env \<Rightarrow> request \<Rightarrow> response js" where
  "await_fetch e req =
     lift_js (case fetch e req of Rejected \<Rightarrow> Inl NetworkError | Responded r \<Rightarrow> Inr r)"

text \<open>\<^verbatim>\<open>response.json()\<close> rejects with a \<^verbatim>\<open>SyntaxError\<close> when the body is not JSON.\<close>

definition response_json :: "response \<Rightarrow> jsval js" where
  "response_json r = lift_js (case json r of None \<Rightarrow> Inl SyntaxError | Some data \<Rightarrow> Inr data)"

definition fetchAPI :: "env \<Rightarrow> HealthcareAPIClient \<Rightarrow> string \<Rightarrow> options \<Rightarrow> jsval js" where
  "fetchAPI e this endpoint opts =
     catch_js
       (bind_js
          (await_fetch e
             \<lparr>url = baseURL this @ endpoint,
              http_method = (case opt_method opts of None \<Rightarrow> ''GET'' | Some m \<Rightarrow> m),
              body = opt_body opts\<rparr>)
          (\<lambda>response.
             if \<not> ok response
             then bind_js (console_error ''API Error'')
                    (\<lambda>_. throw_js (ApiError (status response) (statusText response)))
             else bind_js (response_json response) (\<lambda>data. return_js data)))
       (\<lambda>error. bind_js (console_error (''API Client Error for '' @ endpoint))
                  (\<lambda>_. throw_js error))"

definition getFHIRMetrics :: "env \<Rightarrow> HealthcareAPIClient \<Rightarrow> jsval js" where
  "getFHIRMetrics e this = fetchAPI e this ''/api/fhir/metrics'' no_options"

definition getHL7Metrics :: "env \<Rightarrow> HealthcareAPIClient \<Rightarrow> jsval js" where
  "getHL7Metrics e this = fetchAPI e this ''/api/hl7/metrics'' no_options"

definition getEpicMetrics :: "env \<Rightarrow> HealthcareAPIClient \<Rightarrow> jsval js" where
  "getEpicMetrics e this = fetchAPI e this ''/api/epic/metrics'' no_options"

definition getAzureMetrics :: "env \<Rightarrow> HealthcareAPIClient \<Rightarrow> jsval js" where
  "getAzureMetrics e this = fetchAPI e this ''/api/azure/metrics'' no_options"

definition getResponseTimeAnalytics :: "env \<Rightarrow> HealthcareAPIClient \<Rightarrow> jsval js" where
  "getResponseTimeAnalytics e this = fetchAPI e this ''/api/analytics/response-times'' no_options"

definition getMessageVolumeAnalytics :: "env \<Rightarrow> HealthcareAPIClient \<Rightarrow> jsval js" where
  "getMessageVolumeAnalytics e this = fetchAPI e this ''/api/analytics/message-volume'' no_options"

definition getSystemHealthAnalytics :: "env \<Rightarrow> HealthcareAPIClient \<Rightarrow> jsval js" where
  "getSystemHealthAnalytics e this = fetchAPI e this ''/api/analytics/system-health'' no_options"

text \<open>The global \<^verbatim>\<open>window.apiClient = new HealthcareAPIClient()\<close>.\<close>

definition apiClient :: HealthcareAPIClient where
  "apiClient = \<lparr>baseURL = []\<rparr>"

subsection \<open>UI helpers\<close>

definition hideLoading :: "string \<Rightarrow> jsval \<Rightarrow> unit js" where
  "hideLoading elementId content w =
     (case elements w elementId of
        None \<Rightarrow> (Inr (), w)
      | Some element \<Rightarrow> (Inr (), w\<lparr>elements := (elements w)(elementId \<mapsto> content)\<rparr>))"

text \<open>\<^verbatim>\<open>hideLoading(id, f(object.key))\<close>: the property is read first.\<close>

definition show_prop :: "string \<Rightarrow> (jsval \<Rightarrow> jsval) \<Rightarrow> jsval \<Rightarrow> string \<Rightarrow> unit js" where
  "show_prop elementId f object key =
     bind_js (lift_js (get_prop object key)) (\<lambda>v. hideLoading elementId (f v))"

text \<open>The template literal \<^verbatim>\<open>`${v}suffix`\<close>.\<close>

definition template :: "env \<Rightarrow> string \<Rightarrow> jsval \<Rightarrow> jsval" where
  "template e suffix v = JStr (toStr e v @ suffix)"

section \<open>The metrics refresh manager\<close>

definition refreshAllMetrics_try :: "env \<Rightarrow> unit js" where
  "refreshAllMetrics_try e =
     bind_js (getFHIRMetrics e apiClient) (\<lambda>fhirMetrics.
     bind_js (run_all
       [show_prop ''fhirPatients'' (formatNumber e) fhirMetrics ''active_patients'',
        show_prop ''fhirRequests'' (formatNumber e) fhirMetrics ''requests_per_minute'',
        show_prop ''fhirUptime'' (formatPercentage e) fhirMetrics ''uptime_percentage'']) (\<lambda>_.
     bind_js (getHL7Metrics e apiClient) (\<lambda>hl7Metrics.
     bind_js (run_all
       [show_prop ''hl7Messages'' (formatNumber e) hl7Metrics ''daily_message_count'',
        show_prop ''hl7MostCommon'' (\<lambda>v. v) hl7Metrics ''most_common_type'',
        show_prop ''hl7ProcessingTime'' (template e ''s'') hl7Metrics ''avg_processing_time'']) (\<lambda>_.
     bind_js (getEpicMetrics e apiClient) (\<lambda>epicMetrics.
     bind_js (run_all
       [show_prop ''epicProviderOrgs'' (formatNumber e) epicMetrics ''provider_organizations'',
        show_prop ''epicPatientRecords'' (\<lambda>v. v) epicMetrics ''patient_records'',
        show_prop ''epicResponseTime'' (template e ''ms'') epicMetrics ''response_time_ms'']) (\<lambda>_.
     bind_js (getAzureMetrics e apiClient) (\<lambda>azureMetrics.
     bind_js (run_all
       [show_prop ''azureSLA'' (formatPercentage e) azureMetrics ''sla_compliance'',
        show_prop ''azureDataProcessed'' (template e ''TB'') azureMetrics ''data_processed_tb'',
        show_prop ''azureApiCalls'' (formatNumber e) azureMetrics ''api_calls_per_second'']) (\<lambda>_.
     run_all
       [show_prop ''epicAlertTime'' (template e ''ms'') epicMetrics ''response_time_ms'',
        show_prop ''hl7QueueDepth'' (\<lambda>v. v) hl7Metrics ''queue_depth'',
        show_prop ''auditLogsToday'' (formatNumber e) fhirMetrics ''active_patients'']))))))))"

definition refreshAllMetrics :: "env \<Rightarrow> unit js" where
  "refreshAllMetrics e =
     catch_js (refreshAllMetrics_try e) (\<lambda>error. console_error ''Error refreshing metrics:'')"

text \<open>
  \<^verbatim>\<open>start\<close> and \<^verbatim>\<open>stop\<close> test \<^verbatim>\<open>this.intervalId\<close> for truthiness: \<^verbatim>\<open>null\<close> and the
  number 0 are falsy. \<^verbatim>\<open>setInterval\<close> registers the callback under a new id.
\<close>

definition id_truthy :: "nat option \<Rightarrow> bool" where
  "id_truthy i = (case i of None \<Rightarrow> False | Some n \<Rightarrow> n \<noteq> 0)"

definition setInterval :: "callback \<Rightarrow> nat \<Rightarrow> nat js" where
  "setInterval cb ms w =
     (Inr (next_timer w),
      w\<lparr>timers := (timers w)(next_timer w \<mapsto> (cb, ms)), next_timer := next_timer w + 1\<rparr>)"

definition clearInterval :: "nat option \<Rightarrow> unit js" where
  "clearInterval i w =
     (case i of None \<Rightarrow> (Inr (), w) | Some n \<Rightarrow> (Inr (), w\<lparr>timers := (timers w)(n := None)\<rparr>))"

definition set_intervalId :: "nat option \<Rightarrow> unit js" where
  "set_intervalId i w = (Inr (), w\<lparr>metricsManager := (metricsManager w)\<lparr>intervalId := i\<rparr>\<rparr>)"

definition start :: "unit js" where
  "start w =
     (if id_truthy (intervalId (metricsManager w)) then return_js () w
      else bind_js (setInterval RefreshAllMetrics (intervalMs (metricsManager w)))
             (\<lambda>i. set_intervalId (Some i)) w)"

definition stop :: "unit js" where
  "stop w =
     (if id_truthy (intervalId (metricsManager w))
      then bind_js (clearInterval (intervalId (metricsManager w))) (\<lambda>_. set_intervalId None) w
      else return_js () w)"

text \<open>The constructor, with its default of 30 seconds.\<close>

definition new_MetricsRefreshManager :: "nat option \<Rightarrow> MetricsRefreshManager" where
  "new_MetricsRefreshManager ms =
     \<lparr>intervalMs = (case ms of None \<Rightarrow> 30000 | Some n \<Rightarrow> n), intervalId = None\<rparr>"

section \<open>The charts manager\<close>

subsection \<open>The chart library\<close>

text \<open>
  \<^verbatim>\<open>new Chart(canvas.getContext('2d'), config)\<close> stores the configuration under a new
  reference, unless the library throws. The configuration of the source is in the
  format of Chart.js 3 and later (\<^verbatim>\<open>plugins.tooltip\<close>, \<^verbatim>\<open>scales.y\<close>, \<^verbatim>\<open>context.parsed\<close>,
  \<^verbatim>\<open>cutout\<close>), whose constructor refuses a canvas that carries a chart not yet
  destroyed: it throws \<^verbatim>\<open>Canvas is already in use\<close>. Of the configuration the model keeps
  the chart type, the data, the bounds of the y axis and the tooltip's label callback;
  colours, legends and grid lines are left out. \<^verbatim>\<open>update('none')\<close> redraws and changes
  nothing here; \<^verbatim>\<open>destroy()\<close> marks the chart object destroyed, which frees its canvas.
\<close>

definition canvas_in_use :: "window \<Rightarrow> string \<Rightarrow> bool" where
  "canvas_in_use w c =
     list_ex (\<lambda>r. canvas (heap w r) = c \<and> \<not> destroyed (heap w r)) [0..<next_chart w]"

definition new_Chart :: "env \<Rightarrow> chart \<Rightarrow> nat js" where
  "new_Chart e config w =
     (if chart_throws e (canvas config) \<or> canvas_in_use w (canvas config)
      then (Inl ChartError, w)
      else (Inr (next_chart w),
            w\<lparr>heap := (heap w)(next_chart w := config), next_chart := next_chart w + 1\<rparr>))"

definition chart_update :: "env \<Rightarrow> nat \<Rightarrow> unit js" where
  "chart_update e r w = (if update_throws e r then (Inl ChartError, w) else (Inr (), w))"

definition chart_destroy :: "nat \<Rightarrow> unit js" where
  "chart_destroy r w = (Inr (), w\<lparr>heap := (heap w)(r := (heap w r)\<lparr>destroyed := True\<rparr>)\<rparr>)"

text \<open>
  The library calls the label callback for the \<open>i\<close>-th element of the first dataset,
  with that element as \<^verbatim>\<open>context.parsed\<close> (its \<^verbatim>\<open>y\<close> on a bar chart), the \<open>i\<close>-th
  label, and the dataset as it is at the time of the call.
\<close>

fun nums_of :: "jsval list \<Rightarrow> jsnum list option" where
  "nums_of [] = Some []"
| "nums_of (JNum n # vs) = (case nums_of vs of None \<Rightarrow> None | Some ns \<Rightarrow> Some (n # ns))"
| "nums_of (v # vs) = None"

definition label_at :: "jsval \<Rightarrow> nat \<Rightarrow> string" where
  "label_at ls i =
     (case ls of
        JArr xs \<Rightarrow> (if i < length xs then (case xs ! i of JStr s \<Rightarrow> s | _ \<Rightarrow> []) else [])
      | _ \<Rightarrow> [])"

definition tooltip_text :: "env \<Rightarrow> chart \<Rightarrow> nat \<Rightarrow> string option" where
  "tooltip_text e c i =
     (case (tooltip_label c, datasets c) of
        (Some label, dataset # rest) \<Rightarrow>
          (case map_of dataset ''data'' of
             Some (JArr vs) \<Rightarrow>
               (case nums_of vs of
                  Some ns \<Rightarrow>
                    (if i < length ns
                     then Some (label e \<lparr>ctx_label = label_at (labels c) i, parsed = ns ! i,
                                         parsed_y = ns ! i, dataset_data = ns\<rparr>)
                     else None)
                | None \<Rightarrow> None)
           | _ \<Rightarrow> None)
      | _ \<Rightarrow> None)"

subsection \<open>The registry\<close>

fun assign :: "string \<Rightarrow> 'v \<Rightarrow> (string \<times> 'v) list \<Rightarrow> (string \<times> 'v) list" where
  "assign k v [] = [(k, v)]"
| "assign k v (p # ps) = (if fst p = k then (k, v) # ps else p # assign k v ps)"

definition set_chart :: "string \<Rightarrow> entry \<Rightarrow> unit js" where
  "set_chart name x w =
     (Inr (), w\<lparr>chartsManager := (chartsManager w)\<lparr>charts := assign name x (charts (chartsManager w))\<rparr>\<rparr>)"

definition get_chart :: "window \<Rightarrow> string \<Rightarrow> entry" where
  "get_chart w name = (case map_of (charts (chartsManager w)) name of None \<Rightarrow> Undefined | Some x \<Rightarrow> x)"

fun entry_truthy :: "entry \<Rightarrow> bool" where
  "entry_truthy (Ref r) = True"
| "entry_truthy EmptyObject = True"
| "entry_truthy Null = False"
| "entry_truthy Undefined = False"

text \<open>\<^verbatim>\<open>typeof chart.destroy === 'function'\<close>, for a truthy entry.\<close>

fun has_destroy :: "entry \<Rightarrow> bool" where
  "has_destroy (Ref r) = True"
| "has_destroy x = False"

subsection \<open>Creating the charts\<close>

fun map_result :: "('a \<Rightarrow> js_error + 'b) \<Rightarrow> 'a list \<Rightarrow> js_error + 'b list" where
  "map_result f [] = Inr []"
| "map_result f (x # xs) =
     (case f x of
        Inl err \<Rightarrow> Inl err
      | Inr y \<Rightarrow> (case map_result f xs of Inl err \<Rightarrow> Inl err | Inr ys \<Rightarrow> Inr (y # ys)))"

text \<open>\<^verbatim>\<open>{...dataset}\<close>: the own properties of an object, the elements of an array or the
  characters of a string by index, nothing for the other values.\<close>

definition indexed :: "jsval list \<Rightarrow> (string \<times> jsval) list" where
  "indexed xs = map (\<lambda>i. (dec_digits i, xs ! i)) [0..<length xs]"

fun spread :: "jsval \<Rightarrow> (string \<times> jsval) list" where
  "spread (JObj kvs) = kvs"
| "spread (JArr xs) = indexed xs"
| "spread (JStr s) = indexed (map (\<lambda>c. JStr [c]) s)"
| "spread v = []"

text \<open>\<^verbatim>\<open>v + '20'\<close>: string concatenation, whatever \<open>v\<close> is.\<close>

definition plus_string :: "env \<Rightarrow> jsval \<Rightarrow> string \<Rightarrow> jsval" where
  "plus_string e v s = JStr ((case v of JStr t \<Rightarrow> t | _ \<Rightarrow> toStr e v) @ s)"

definition num :: "rat \<Rightarrow> jsval" where
  "num r = JNum (Fin r)"

definition line_dataset :: "env \<Rightarrow> jsval \<Rightarrow> js_error + (string \<times> jsval) list" where
  "line_dataset e dataset =
     (case get_prop dataset ''borderColor'' of
        Inl err \<Rightarrow> Inl err
      | Inr borderColor \<Rightarrow>
          Inr (set_prop ''pointRadius'' (num 4)
              (set_prop ''pointBorderWidth'' (num 2)
              (set_prop ''pointBorderColor'' (JStr ''#ffffff'')
              (set_prop ''pointBackgroundColor'' borderColor
              (set_prop ''tension'' (num (2 / 5))
              (set_prop ''fill'' (JBool True)
              (set_prop ''borderWidth'' (num 3)
              (set_prop ''backgroundColor'' (plus_string e borderColor ''20'')
              (spread dataset))))))))))"

text \<open>\<^verbatim>\<open>data.datasets.map(...)\<close>: a \<^verbatim>\<open>TypeError\<close> unless \<^verbatim>\<open>data.datasets\<close> is an array.\<close>

definition line_datasets :: "env \<Rightarrow> jsval \<Rightarrow> js_error + (string \<times> jsval) list list" where
  "line_datasets e data =
     (case get_prop data ''datasets'' of
        Inl err \<Rightarrow> Inl err
      | Inr (JArr ds) \<Rightarrow> map_result (line_dataset e) ds
      | Inr v \<Rightarrow> Inl TypeError)"

definition createResponseTimeChart :: "env \<Rightarrow> unit js" where
  "createResponseTimeChart e w =
     (case elements w ''responseTimeChart'' of
        None \<Rightarrow> console_warn ''Response time chart canvas not found'' w
      | Some canvas_element \<Rightarrow>
          catch_js
            (bind_js (getResponseTimeAnalytics e apiClient) (\<lambda>data.
             bind_js (lift_js (get_prop data ''labels'')) (\<lambda>data_labels.
             bind_js (lift_js (line_datasets e data)) (\<lambda>data_datasets.
             bind_js (new_Chart e
                        \<lparr>canvas = ''responseTimeChart'', ctype = ''line'',
                         labels = data_labels, datasets = data_datasets,
                         y_beginAtZero = True, y_max = None,
                         tooltip_label = None, destroyed = False\<rparr>) (\<lambda>r.
             set_chart ''responseTime'' (Ref r))))))
            (\<lambda>error. console_error ''Error creating response time chart:'') w)"

text \<open>The tooltip of the message volume chart: the value and its share of the total.\<close>

definition messageVolume_label :: "env \<Rightarrow> tooltip_context \<Rightarrow> string" where
  "messageVolume_label e context =
     (let label = ctx_label context;
          value = parsed context;
          total = foldl js_add (Fin 0) (dataset_data context);
          percentage = toFixed e 1 (js_mul (js_div value total) (Fin 100))
      in label @ '': '' @ toStr e (JNum value) @ ''% ('' @ percentage @ ''% of total)'')"

definition createMessageVolumeChart :: "env \<Rightarrow> unit js" where
  "createMessageVolumeChart e w =
     (case elements w ''messageVolumeChart'' of
        None \<Rightarrow> console_warn ''Message volume chart canvas not found'' w
      | Some canvas_element \<Rightarrow>
          catch_js
            (bind_js (getMessageVolumeAnalytics e apiClient) (\<lambda>data.
             bind_js (lift_js (get_prop data ''labels'')) (\<lambda>data_labels.
             bind_js (lift_js (get_prop data ''data'')) (\<lambda>data_data.
             bind_js (lift_js (get_prop data ''backgroundColor'')) (\<lambda>data_backgroundColor.
             bind_js (new_Chart e
                        \<lparr>canvas = ''messageVolumeChart'', ctype = ''doughnut'',
                         labels = data_labels,
                         datasets =
                           [[(''data'', data_data),
                             (''backgroundColor'', data_backgroundColor),
                             (''borderWidth'', num 4),
                             (''borderColor'', JStr ''#ffffff''),
                             (''hoverBorderWidth'', num 6),
                             (''hoverBorderColor'', JStr ''#ffffff'')]],
                         y_beginAtZero = False, y_max = None,
                         tooltip_label = Some messageVolume_label, destroyed = False\<rparr>) (\<lambda>r.
             set_chart ''messageVolume'' (Ref r)))))))
            (\<lambda>error. console_error ''Error creating message volume chart:'') w)"

text \<open>The tooltip of the health status chart.\<close>

definition healthStatus_label :: "env \<Rightarrow> tooltip_context \<Rightarrow> string" where
  "healthStatus_label e context = ''Uptime: '' @ toFixed e 1 (parsed_y context) @ ''%''"

definition createHealthStatusChart :: "env \<Rightarrow> unit js" where
  "createHealthStatusChart e w =
     (case elements w ''healthStatusChart'' of
        None \<Rightarrow> console_warn ''Health status chart canvas not found'' w
      | Some canvas_element \<Rightarrow>
          catch_js
            (bind_js (getSystemHealthAnalytics e apiClient) (\<lambda>data.
             bind_js (lift_js (get_prop data ''labels'')) (\<lambda>data_labels.
             bind_js (lift_js (get_prop data ''data'')) (\<lambda>data_data.
             bind_js (lift_js (get_prop data ''backgroundColor'')) (\<lambda>data_backgroundColor.
             bind_js (new_Chart e
                        \<lparr>canvas = ''healthStatusChart'', ctype = ''bar'',
                         labels = data_labels,
                         datasets =
                           [[(''label'', JStr ''Uptime %''),
                             (''data'', data_data),
                             (''backgroundColor'', data_backgroundColor),
                             (''borderRadius'', num 8),
                             (''borderSkipped'', JBool False),
                             (''borderWidth'', num 1),
                             (''borderColor'', JStr ''#ffffff'')]],
                         y_beginAtZero = True, y_max = Some (Fin 100),
                         tooltip_label = Some healthStatus_label, destroyed = False\<rparr>) (\<lambda>r.
             set_chart ''healthStatus'' (Ref r)))))))
            (\<lambda>error. console_error ''Error creating health status chart:'') w)"

text \<open>The FHIR trends chart has its data in the source.\<close>

definition fhirTrends_label :: "env \<Rightarrow> tooltip_context \<Rightarrow> string" where
  "fhirTrends_label e context = ''Resources: '' @ toLocaleString e (parsed_y context)"

definition createFHIRTrendsChart :: "env \<Rightarrow> unit js" where
  "createFHIRTrendsChart e w =
     (case elements w ''fhirTrendsChart'' of
        None \<Rightarrow> console_warn ''FHIR trends chart canvas not found'' w
      | Some canvas_element \<Rightarrow>
          catch_js
            (bind_js (new_Chart e
                        \<lparr>canvas = ''fhirTrendsChart'', ctype = ''bar'',
                         labels = JArr (map JStr [''Patient'', ''Observation'', ''Encounter'',
                                                  ''Medication'', ''DiagnosticReport'']),
                         datasets =
                           [[(''label'', JStr ''Resources Processed''),
                             (''data'', JArr (map num [1247, 892, 634, 445, 321])),
                             (''backgroundColor'',
                                JArr (map JStr [''#0078d4'', ''#059669'', ''#e67e22'',
                                                ''#6b46c1'', ''#f59e0b''])),
                             (''borderRadius'', num 6),
                             (''borderSkipped'', JBool False),
                             (''borderWidth'', num 1),
                             (''borderColor'', JStr ''#ffffff'')]],
                         y_beginAtZero = True, y_max = None,
                         tooltip_label = Some fhirTrends_label, destroyed = False\<rparr>) (\<lambda>r.
             set_chart ''fhirTrends'' (Ref r)))
            (\<lambda>error. console_error ''Error creating FHIR trends chart:'') w)"

text \<open>
  The four functions that create a chart, by the query whose chart they create: the
  function, the id of the canvas it draws on, the name under which it registers the
  chart in \<^verbatim>\<open>this.charts\<close>, and the line its \<^verbatim>\<open>catch\<close> block writes.
\<close>

datatype chart_query = ResponseTime | MessageVolume | HealthStatus | FHIRTrends

fun create :: "chart_query \<Rightarrow> env \<Rightarrow> unit js" where
  "create ResponseTime = createResponseTimeChart"
| "create MessageVolume = createMessageVolumeChart"
| "create HealthStatus = createHealthStatusChart"
| "create FHIRTrends = createFHIRTrendsChart"

fun canvas_id :: "chart_query \<Rightarrow> string" where
  "canvas_id ResponseTime = ''responseTimeChart''"
| "canvas_id MessageVolume = ''messageVolumeChart''"
| "canvas_id HealthStatus = ''healthStatusChart''"
| "canvas_id FHIRTrends = ''fhirTrendsChart''"

fun registered_as :: "chart_query \<Rightarrow> string" where
  "registered_as ResponseTime = ''responseTime''"
| "registered_as MessageVolume = ''messageVolume''"
| "registered_as HealthStatus = ''healthStatus''"
| "registered_as FHIRTrends = ''fhirTrends''"

fun creation_error :: "chart_query \<Rightarrow> string" where
  "creation_error ResponseTime = ''Error creating response time chart:''"
| "creation_error MessageVolume = ''Error creating message volume chart:''"
| "creation_error HealthStatus = ''Error creating health status chart:''"
| "creation_error FHIRTrends = ''Error creating FHIR trends chart:''"

subsection \<open>Updating the charts\<close>

text \<open>\<^verbatim>\<open>a[i]\<close>: a \<^verbatim>\<open>TypeError\<close> on \<^verbatim>\<open>null\<close> and \<^verbatim>\<open>undefined\<close>, \<^verbatim>\<open>undefined\<close> out of range.\<close>

fun get_index :: "jsval \<Rightarrow> nat \<Rightarrow> js_error + jsval" where
  "get_index JUndefined i = Inl TypeError"
| "get_index JNull i = Inl TypeError"
| "get_index (JArr xs) i = Inr (if i < length xs then xs ! i else JUndefined)"
| "get_index (JStr s) i = Inr (if i < length s then JStr [s ! i] else JUndefined)"
| "get_index (JObj kvs) i = Inr (case map_of kvs (dec_digits i) of None \<Rightarrow> JUndefined | Some v \<Rightarrow> v)"
| "get_index v i = Inr JUndefined"

text \<open>
  The \<^verbatim>\<open>forEach\<close> over the datasets of the response time chart: each dataset takes the
  data of the response's dataset of the same index, where there is one. A dataset
  written before a later one throws stays written.
\<close>

fun forEach_dataset ::
  "jsval \<Rightarrow> nat \<Rightarrow> (string \<times> jsval) list list \<Rightarrow> js_error option \<times> (string \<times> jsval) list list" where
  "forEach_dataset responseData index [] = (None, [])"
| "forEach_dataset responseData index (dataset # rest) =
     (case get_prop responseData ''datasets'' of
        Inl err \<Rightarrow> (Some err, dataset # rest)
      | Inr response_datasets \<Rightarrow>
          (case get_index response_datasets index of
             Inl err \<Rightarrow> (Some err, dataset # rest)
           | Inr x \<Rightarrow>
               if truthy x
               then (case get_prop x ''data'' of
                       Inl err \<Rightarrow> (Some err, dataset # rest)
                     | Inr v \<Rightarrow>
                         (case forEach_dataset responseData (index + 1) rest of
                            (r, rest') \<Rightarrow> (r, set_prop ''data'' v dataset # rest')))
               else (case forEach_dataset responseData (index + 1) rest of
                       (r, rest') \<Rightarrow> (r, dataset # rest'))))"

definition set_datasets :: "nat \<Rightarrow> (string \<times> jsval) list list \<Rightarrow> window \<Rightarrow> window" where
  "set_datasets r ds w = w\<lparr>heap := (heap w)(r := (heap w r)\<lparr>datasets := ds\<rparr>)\<rparr>"

definition update_datasets :: "jsval \<Rightarrow> nat \<Rightarrow> unit js" where
  "update_datasets responseData r w =
     (case forEach_dataset responseData 0 (datasets (heap w r)) of
        (None, ds) \<Rightarrow> (Inr (), set_datasets r ds w)
      | (Some err, ds) \<Rightarrow> (Inl err, set_datasets r ds w))"

text \<open>\<^verbatim>\<open>chart.data.datasets[0].data = v\<close>: a \<^verbatim>\<open>TypeError\<close> when there is no dataset.\<close>

definition set_first_data :: "nat \<Rightarrow> jsval \<Rightarrow> unit js" where
  "set_first_data r v w =
     (case datasets (heap w r) of
        [] \<Rightarrow> (Inl TypeError, w)
      | dataset # rest \<Rightarrow> (Inr (), set_datasets r (set_prop ''data'' v dataset # rest) w))"

text \<open>
  The four blocks of \<^verbatim>\<open>updateAllCharts\<close>. A block is skipped when its entry of the
  registry is falsy; on the entry \<^verbatim>\<open>{}\<close> the chart's \<^verbatim>\<open>data.datasets\<close> cannot be read.
\<close>

definition update_responseTime :: "env \<Rightarrow> unit js" where
  "update_responseTime e w =
     (case get_chart w ''responseTime'' of
        Ref r \<Rightarrow>
          bind_js (getResponseTimeAnalytics e apiClient) (\<lambda>responseData.
          bind_js (update_datasets responseData r) (\<lambda>_.
          chart_update e r)) w
      | EmptyObject \<Rightarrow>
          bind_js (getResponseTimeAnalytics e apiClient) (\<lambda>responseData. throw_js TypeError) w
      | _ \<Rightarrow> return_js () w)"

definition update_messageVolume :: "env \<Rightarrow> unit js" where
  "update_messageVolume e w =
     (case get_chart w ''messageVolume'' of
        Ref r \<Rightarrow>
          bind_js (getMessageVolumeAnalytics e apiClient) (\<lambda>volumeData.
          bind_js (lift_js (get_prop volumeData ''data'')) (\<lambda>v.
          bind_js (set_first_data r v) (\<lambda>_.
          chart_update e r))) w
      | EmptyObject \<Rightarrow>
          bind_js (getMessageVolumeAnalytics e apiClient) (\<lambda>volumeData. throw_js TypeError) w
      | _ \<Rightarrow> return_js () w)"

definition update_healthStatus :: "env \<Rightarrow> unit js" where
  "update_healthStatus e w =
     (case get_chart w ''healthStatus'' of
        Ref r \<Rightarrow>
          bind_js (getSystemHealthAnalytics e apiClient) (\<lambda>healthData.
          bind_js (lift_js (get_prop healthData ''data'')) (\<lambda>v.
          bind_js (set_first_data r v) (\<lambda>_.
          chart_update e r))) w
      | EmptyObject \<Rightarrow>
          bind_js (getSystemHealthAnalytics e apiClient) (\<lambda>healthData. throw_js TypeError) w
      | _ \<Rightarrow> return_js () w)"

text \<open>
  The simulated variation: \<^verbatim>\<open>Math.max(100, value + Math.floor(Math.random() * 100 - 50))\<close>,
  where \<open>math_random e i\<close> is the \<open>i\<close>-th draw; subtracting 50 is adding \<open>- 50\<close>.
\<close>

definition fhir_newData :: "env \<Rightarrow> jsval" where
  "fhir_newData e =
     JArr (map (\<lambda>(i, value).
                  JNum (js_max (Fin 100)
                    (js_add (Fin value)
                       (js_floor (js_add (js_mul (Fin (math_random e i)) (Fin 100)) (Fin (- 50)))))))
             (enumerate 0 [1247, 892, 634, 445, 321]))"

definition update_fhirTrends :: "env \<Rightarrow> unit js" where
  "update_fhirTrends e w =
     (case get_chart w ''fhirTrends'' of
        Ref r \<Rightarrow> bind_js (set_first_data r (fhir_newData e)) (\<lambda>_. chart_update e r) w
      | EmptyObject \<Rightarrow> throw_js TypeError w
      | _ \<Rightarrow> return_js () w)"

definition updateAllCharts_try :: "env \<Rightarrow> unit js" where
  "updateAllCharts_try e =
     run_all [update_responseTime e, update_messageVolume e, update_healthStatus e,
              update_fhirTrends e]"

definition updateAllCharts :: "env \<Rightarrow> unit js" where
  "updateAllCharts e =
     catch_js (updateAllCharts_try e) (\<lambda>error. console_error ''Error updating charts:'')"

subsection \<open>Automatic updates and teardown\<close>

definition set_updateInterval :: "nat option \<Rightarrow> unit js" where
  "set_updateInterval i w = (Inr (), w\<lparr>chartsManager := (chartsManager w)\<lparr>updateInterval := i\<rparr>\<rparr>)"

definition startAutoUpdate :: "unit js" where
  "startAutoUpdate w =
     (if id_truthy (updateInterval (chartsManager w)) then return_js () w
      else bind_js (setInterval UpdateAllCharts 60000) (\<lambda>i. set_updateInterval (Some i)) w)"

definition stopAutoUpdate :: "unit js" where
  "stopAutoUpdate w =
     (if id_truthy (updateInterval (chartsManager w))
      then bind_js (clearInterval (updateInterval (chartsManager w)))
             (\<lambda>_. set_updateInterval None) w
      else return_js () w)"

definition destroy_entry :: "entry \<Rightarrow> unit js" where
  "destroy_entry x =
     (if entry_truthy x \<and> has_destroy x
      then (case x of Ref r \<Rightarrow> chart_destroy r | _ \<Rightarrow> return_js ())
      else return_js ())"

definition set_charts :: "(string \<times> entry) list \<Rightarrow> unit js" where
  "set_charts cs w = (Inr (), w\<lparr>chartsManager := (chartsManager w)\<lparr>charts := cs\<rparr>\<rparr>)"

definition destroyCharts :: "unit js" where
  "destroyCharts w =
     bind_js (run_all (map destroy_entry (map snd (charts (chartsManager w))))) (\<lambda>_.
     bind_js (set_charts []) (\<lambda>_.
     stopAutoUpdate)) w"

definition initializeCharts :: "env \<Rightarrow> unit js" where
  "initializeCharts e =
     catch_js
       (bind_js (createResponseTimeChart e) (\<lambda>_.
        bind_js (createMessageVolumeChart e) (\<lambda>_.
        bind_js (createHealthStatusChart e) (\<lambda>_.
        bind_js (createFHIRTrendsChart e) (\<lambda>_.
        startAutoUpdate)))))
       (\<lambda>error. console_error ''Error initializing charts:'')"

definition new_HealthcareChartsManager :: HealthcareChartsManager where
  "new_HealthcareChartsManager = \<lparr>charts = [], updateInterval = None\<rparr>"

section \<open>A page and a host for concrete runs\<close>

text \<open>
  The page when both scripts have loaded, with the given elements, and the same page
  with a given registry of charts; a service that
  answers the listed addresses and rejects the others; and a host whose library throws
  on a canvas in use only, and whose \<^verbatim>\<open>ToString\<close> and locale print an integer as its
  decimal digits. The runs below format integers under 10000 only, which a locale
  with no grouping of four digits (the Spanish one, for instance) prints that way.
\<close>

definition no_chart :: chart where
  "no_chart =
     \<lparr>canvas = [], ctype = [], labels = JUndefined, datasets = [], y_beginAtZero = False,
      y_max = None, tooltip_label = None, destroyed = False\<rparr>"

definition page :: "(string \<times> jsval) list \<Rightarrow> window" where
  "page els =
     \<lparr>elements = map_of els, console = [], heap = (\<lambda>r. no_chart), next_chart = 0,
      timers = Map.empty, next_timer = 1,
      metricsManager = new_MetricsRefreshManager None,
      chartsManager = new_HealthcareChartsManager\<rparr>"

definition charts_page :: "(string \<times> jsval) list \<Rightarrow> (string \<times> entry) list \<Rightarrow> window" where
  "charts_page els cs = (page els)\<lparr>chartsManager := \<lparr>charts = cs, updateInterval = None\<rparr>\<rparr>"

definition json_ok :: "jsval \<Rightarrow> fetch_outcome" where
  "json_ok v = Responded \<lparr>status = 200, statusText = ''OK'', body_text = [], json = Some v\<rparr>"

definition service :: "(string \<times> fetch_outcome) list \<Rightarrow> request \<Rightarrow> fetch_outcome" where
  "service routes req = (case map_of routes (url req) of None \<Rightarrow> Rejected | Some r \<Rightarrow> r)"

definition integer_digits :: "jsnum \<Rightarrow> string" where
  "integer_digits x =
     (case x of
        Fin r \<Rightarrow> (if r < 0 then ''-'' else []) @ dec_digits (nat \<lfloor>\<bar>r\<bar>\<rfloor>)
      | NaN \<Rightarrow> ''NaN''
      | PosInf \<Rightarrow> ''Infinity''
      | NegInf \<Rightarrow> ''-Infinity'')"

definition plain_string :: "jsval \<Rightarrow> string" where
  "plain_string v =
     (case v of
        JStr s \<Rightarrow> s
      | JNum n \<Rightarrow> integer_digits n
      | JUndefined \<Rightarrow> ''undefined''
      | JNull \<Rightarrow> ''null''
      | JBool b \<Rightarrow> (if b then ''true'' else ''false'')
      | _ \<Rightarrow> ''[object Object]'')"

definition host :: "(request \<Rightarrow> fetch_outcome) \<Rightarrow> env" where
  "host net =
     \<lparr>fetch = net, toLocaleString = integer_digits, toStr = plain_string,
      math_random = (\<lambda>i. 0), chart_throws = (\<lambda>c. False), update_throws = (\<lambda>r. False)\<rparr>"

section \<open>The percentage as the specification words it\<close>


definition one_decimal :: "rat \<Rightarrow> string" where
  "one_decimal x =
     (let n = nat \<lfloor>\<bar>x\<bar> * 10 + 1 / 2\<rfloor>
      in (if x < 0 then ''-'' else []) @ dec_digits (n div 10) @ ''.'' @ dec_digits (n mod 10))"

section \<open>Services and pages for concrete runs\<close>

text \<open>
  The system health answer of the specification's scenario; a message volume answer
  with given values; a response time answer with one series. \<open>volume_page\<close> is the page
  after the message volume chart was created from five equal values, \<open>times_page\<close> the
  page after a first call of \<^verbatim>\<open>createResponseTimeChart\<close>.
\<close>

definition health_service :: "request \<Rightarrow> fetch_outcome" where
  "health_service =
     service [(''/api/analytics/system-health'',
       json_ok (JObj [(''labels'', JArr [JStr ''EpicAPI'', JStr ''CernerAPI'']),
                      (''data'', JArr [num (999 / 10), num (486 / 5)])]))]"



definition times_data :: jsval where
  "times_data =
     JObj [(''labels'', JArr [JStr ''00:00'', JStr ''04:00'']),
           (''datasets'',
              JArr [JObj [(''label'', JStr ''Epic''),
                          (''data'', JArr [num 120, num 135]),
                          (''borderColor'', JStr ''#0078d4'')]])]"

definition times_service :: "request \<Rightarrow> fetch_outcome" where
  "times_service = service [(''/api/analytics/response-times'', json_ok times_data)]"

definition times_page :: window where
  "times_page =
     snd (createResponseTimeChart (host times_service) (page [(''responseTimeChart'', JStr [])]))"

section \<open>The four queries of a refresh cycle\<close>

text \<open>
  The \<^verbatim>\<open>try\<close> block of \<^verbatim>\<open>refreshAllMetrics\<close> awaits four fetches, in this order, and
  after each one writes three widgets from the answer. \<open>endpoint_of\<close> is the address a
  query fetches, \<open>position\<close> its place in the block, \<open>widgets\<close> the ids of the elements
  written after it, and \<open>display\<close> what is written there from the answer \<open>m\<close>.
\<close>

datatype query = FHIR | HL7 | Epic | Azure

fun endpoint_of :: "query \<Rightarrow> string" where
  "endpoint_of FHIR = ''/api/fhir/metrics''"
| "endpoint_of HL7 = ''/api/hl7/metrics''"
| "endpoint_of Epic = ''/api/epic/metrics''"
| "endpoint_of Azure = ''/api/azure/metrics''"

fun position :: "query \<Rightarrow> nat" where
  "position FHIR = 0"
| "position HL7 = 1"
| "position Epic = 2"
| "position Azure = 3"

fun display :: "env \<Rightarrow> query \<Rightarrow> jsval \<Rightarrow> (string \<times> jsval) list" where
  "display e FHIR m =
     [(''fhirPatients'', formatNumber e (prop_of m ''active_patients'')),
      (''fhirRequests'', formatNumber e (prop_of m ''requests_per_minute'')),
      (''fhirUptime'', formatPercentage e (prop_of m ''uptime_percentage''))]"
| "display e HL7 m =
     [(''hl7Messages'', formatNumber e (prop_of m ''daily_message_count'')),
      (''hl7MostCommon'', prop_of m ''most_common_type''),
      (''hl7ProcessingTime'', template e ''s'' (prop_of m ''avg_processing_time''))]"
| "display e Epic m =
     [(''epicProviderOrgs'', formatNumber e (prop_of m ''provider_organizations'')),
      (''epicPatientRecords'', prop_of m ''patient_records''),
      (''epicResponseTime'', template e ''ms'' (prop_of m ''response_time_ms''))]"
| "display e Azure m =
     [(''azureSLA'', formatPercentage e (prop_of m ''sla_compliance'')),
      (''azureDataProcessed'', template e ''TB'' (prop_of m ''data_processed_tb'')),
      (''azureApiCalls'', formatNumber e (prop_of m ''api_calls_per_second''))]"

fun widgets :: "query \<Rightarrow> string list" where
  "widgets FHIR = [''fhirPatients'', ''fhirRequests'', ''fhirUptime'']"
| "widgets HL7 = [''hl7Messages'', ''hl7MostCommon'', ''hl7ProcessingTime'']"
| "widgets Epic = [''epicProviderOrgs'', ''epicPatientRecords'', ''epicResponseTime'']"
| "widgets Azure = [''azureSLA'', ''azureDataProcessed'', ''azureApiCalls'']"

text \<open>
  The body a query's fetch resolves with, \<open>None\<close> when the fetch fails: the request is
  rejected, the status is outside 200 to 299, or the body is not JSON.
\<close>

definition fetched :: "env \<Rightarrow> query \<Rightarrow> jsval option" where
  "fetched e q =
     (case fetch e \<lparr>url = endpoint_of q, http_method = ''GET'', body = None\<rparr> of
        Rejected \<Rightarrow> None
      | Responded r \<Rightarrow> if ok r then json r else None)"

text \<open>
  What \<^verbatim>\<open>hideLoading\<close> does to the elements of the page: the content of an element
  that exists is replaced, an id with no element is passed over.
\<close>

definition put :: "string \<Rightarrow> jsval \<Rightarrow> (string \<rightharpoonup> jsval) \<Rightarrow> (string \<rightharpoonup> jsval)" where
  "put x c els = (case els x of None \<Rightarrow> els | Some old \<Rightarrow> els(x \<mapsto> c))"

fun put_all :: "(string \<times> jsval) list \<Rightarrow> (string \<rightharpoonup> jsval) \<Rightarrow> (string \<rightharpoonup> jsval)" where
  "put_all [] els = els"
| "put_all ((x, c) # kvs) els = put_all kvs (put x c els)"

text \<open>
  Answers of the four endpoints, a service where the FHIR endpoint is down, one where the
  Epic endpoint is down, and a page whose widgets and alert elements all show \<^verbatim>\<open>--\<close>.
\<close>

definition fhir_body :: jsval where
  "fhir_body = JObj [(''active_patients'', num 1247), (''requests_per_minute'', num 842),
                     (''uptime_percentage'', num (999 / 10))]"

definition hl7_body :: jsval where
  "hl7_body = JObj [(''daily_message_count'', num 500), (''most_common_type'', JStr ''ADT''),
                    (''avg_processing_time'', num 2), (''queue_depth'', num 7)]"

definition epic_body :: jsval where
  "epic_body = JObj [(''provider_organizations'', num 305), (''patient_records'', JStr ''250M+''),
                     (''response_time_ms'', num 120)]"

definition azure_body :: jsval where
  "azure_body = JObj [(''sla_compliance'', num (9999 / 100)), (''data_processed_tb'', num 12),
                      (''api_calls_per_second'', num 1500)]"

definition fhir_down :: "request \<Rightarrow> fetch_outcome" where
  "fhir_down = service [(''/api/hl7/metrics'', json_ok hl7_body),
                        (''/api/epic/metrics'', json_ok epic_body),
                        (''/api/azure/metrics'', json_ok azure_body)]"

definition epic_down :: "request \<Rightarrow> fetch_outcome" where
  "epic_down = service [(''/api/fhir/metrics'', json_ok fhir_body),
                        (''/api/hl7/metrics'', json_ok hl7_body),
                        (''/api/azure/metrics'', json_ok azure_body)]"

definition dashboard :: window where
  "dashboard =
     page (map (\<lambda>x. (x, JStr ''--''))
       [''fhirPatients'', ''fhirRequests'', ''fhirUptime'',
        ''hl7Messages'', ''hl7MostCommon'', ''hl7ProcessingTime'',
        ''epicProviderOrgs'', ''epicPatientRecords'', ''epicResponseTime'',
        ''azureSLA'', ''azureDataProcessed'', ''azureApiCalls'',
        ''epicAlertTime'', ''hl7QueueDepth'', ''auditLogsToday''])"

section \<open>Frames\<close>

text \<open>
  A statement keeps a part of the page when that part is the same after the statement as
  before it, whether the statement returns or throws. A chart with the \<^verbatim>\<open>data\<close>
  property of each of its datasets taken out is what an update in place must not touch.
\<close>

definition keeps :: "(window \<Rightarrow> 'b) \<Rightarrow> 'a js \<Rightarrow> bool" where
  "keeps f m = (\<forall>w. f (snd (m w)) = f w)"

definition strip_data :: "chart \<Rightarrow> chart" where
  "strip_data c = c\<lparr>datasets := map (filter (\<lambda>p. fst p \<noteq> ''data'')) (datasets c)\<rparr>"

section \<open>Theorems\<close>

lemma typeof_number_iff: "typeof v = ''number'' \<longleftrightarrow> (\<exists>n. v = JNum n)"
  by (cases v) simp_all

text \<open>
  C10. For every input whose type is not number, \<^verbatim>\<open>formatNumber\<close> and
  \<^verbatim>\<open>formatPercentage\<close> return the input unchanged; a number is reformatted, by the
  locale's grouping and to one decimal place with a trailing percent sign.
\<close>

theorem format_helpers_non_number:
  "(typeof x \<noteq> ''number'' \<longrightarrow> formatNumber e x = x \<and> formatPercentage e x = x) \<and>
   formatNumber e (JNum n) = JStr (toLocaleString e n) \<and>
   formatPercentage e (JNum n) = JStr (toFixed e 1 n @ ''%'')"
  by (simp add: formatNumber_def formatPercentage_def)

theorem format_helpers_non_number_witness:
  "typeof (JStr ''n/a'') \<noteq> ''number'' \<and>
   formatNumber (host (service [])) (JStr ''n/a'') = JStr ''n/a'' \<and>
   formatPercentage (host (service [])) (JStr ''n/a'') = JStr ''n/a''"
  using format_helpers_non_number [of "JStr ''n/a''" "host (service [])"] by simp

subsection \<open>Stopping a scheduler that is not running\<close>

lemma stop_idle:
  "\<not> id_truthy (intervalId (metricsManager w)) \<Longrightarrow> stop w = (Inr (), w)"
  by (simp add: stop_def return_js_def)

lemma stop_result:
  "fst (stop w) = Inr () \<and> \<not> id_truthy (intervalId (metricsManager (snd (stop w))))"
  by (simp add: stop_def return_js_def bind_js_def clearInterval_def set_intervalId_def
      id_truthy_def split: option.splits)

lemma stopAutoUpdate_idle:
  "\<not> id_truthy (updateInterval (chartsManager w)) \<Longrightarrow> stopAutoUpdate w = (Inr (), w)"
  by (simp add: stopAutoUpdate_def return_js_def)

lemma stopAutoUpdate_result:
  "fst (stopAutoUpdate w) = Inr () \<and>
   \<not> id_truthy (updateInterval (chartsManager (snd (stopAutoUpdate w))))"
  by (simp add: stopAutoUpdate_def return_js_def bind_js_def clearInterval_def
      set_updateInterval_def id_truthy_def split: option.splits)

text \<open>
  C8. \<^verbatim>\<open>stop\<close> on a metrics manager as its constructor left it, or on one that has
  been stopped, throws nothing and returns the page as it was: the interval id stays
  \<^verbatim>\<open>null\<close>, the interval stays as configured. The same holds for \<^verbatim>\<open>stopAutoUpdate\<close>
  on the charts manager.
\<close>

theorem stop_not_running_is_noop:
  "stop (w\<lparr>metricsManager := new_MetricsRefreshManager ms\<rparr>) =
     (Inr (), w\<lparr>metricsManager := new_MetricsRefreshManager ms\<rparr>) \<and>
   stop (snd (stop w)) = (Inr (), snd (stop w)) \<and>
   intervalMs (metricsManager (snd (stop w))) = intervalMs (metricsManager w) \<and>
   stopAutoUpdate (w\<lparr>chartsManager := new_HealthcareChartsManager\<rparr>) =
     (Inr (), w\<lparr>chartsManager := new_HealthcareChartsManager\<rparr>) \<and>
   stopAutoUpdate (snd (stopAutoUpdate w)) = (Inr (), snd (stopAutoUpdate w))"
proof -
  have a: "stop (w\<lparr>metricsManager := new_MetricsRefreshManager ms\<rparr>) =
     (Inr (), w\<lparr>metricsManager := new_MetricsRefreshManager ms\<rparr>)"
    by (rule stop_idle) (simp add: new_MetricsRefreshManager_def id_truthy_def)
  have b: "stop (snd (stop w)) = (Inr (), snd (stop w))"
    by (rule stop_idle) (simp add: stop_result)
  have c: "stopAutoUpdate (w\<lparr>chartsManager := new_HealthcareChartsManager\<rparr>) =
     (Inr (), w\<lparr>chartsManager := new_HealthcareChartsManager\<rparr>)"
    by (rule stopAutoUpdate_idle) (simp add: new_HealthcareChartsManager_def id_truthy_def)
  have d: "stopAutoUpdate (snd (stopAutoUpdate w)) = (Inr (), snd (stopAutoUpdate w))"
    by (rule stopAutoUpdate_idle) (simp add: stopAutoUpdate_result)
  have f: "intervalMs (metricsManager (snd (stop w))) = intervalMs (metricsManager w)"
    by (simp add: stop_def return_js_def bind_js_def clearInterval_def set_intervalId_def
        id_truthy_def split: option.splits)
  from a b c d f show ?thesis by blast
qed

subsection \<open>What the gateway client returns\<close>

text \<open>
  C3, as the code has it. \<^verbatim>\<open>fetchAPI\<close> validates nothing: the body of a response
  with a status from 200 to 299 is returned as \<^verbatim>\<open>response.json()\<close> decoded it,
  whatever fields it has and whatever the lengths of its labels and series. The call
  fails only when the request is rejected, when the status is outside 200 to 299, or
  when the body is not JSON.
\<close>

theorem fetchAPI_outcome:
  "fst (fetchAPI e this endpoint opts w) =
     (case fetch e \<lparr>url = baseURL this @ endpoint,
                    http_method = (case opt_method opts of None \<Rightarrow> ''GET'' | Some m \<Rightarrow> m),
                    body = opt_body opts\<rparr> of
        Rejected \<Rightarrow> Inl NetworkError
      | Responded r \<Rightarrow>
          if ok r then (case json r of None \<Rightarrow> Inl SyntaxError | Some data \<Rightarrow> Inr data)
          else Inl (ApiError (status r) (statusText r)))"
  by (simp add: fetchAPI_def catch_js_def bind_js_def await_fetch_def lift_js_def
      response_json_def console_error_def throw_js_def return_js_def
      split: fetch_outcome.splits option.splits)

text \<open>
  A response with status 200 whose body has two labels and one data value, and one
  whose body has no field at all: both are returned, and nothing is thrown.
\<close>

theorem fetchAPI_returns_malformed_body:
  "fetchAPI
     (host (service [(''/api/analytics/message-volume'',
        json_ok (JObj [(''labels'', JArr [JStr ''ADT'', JStr ''ORU'']),
                       (''data'', JArr [num 5])]))]))
     apiClient ''/api/analytics/message-volume'' no_options (page []) =
   (Inr (JObj [(''labels'', JArr [JStr ''ADT'', JStr ''ORU'']), (''data'', JArr [num 5])]),
    page []) \<and>
   fetchAPI (host (service [(''/api/fhir/metrics'', json_ok (JObj []))]))
     apiClient ''/api/fhir/metrics'' no_options (page []) = (Inr (JObj []), page [])"
  by (simp add: fetchAPI_def catch_js_def bind_js_def await_fetch_def lift_js_def
      response_json_def return_js_def host_def service_def json_ok_def apiClient_def
      no_options_def ok_def)

subsection \<open>Frame rules\<close>

named_theorems keeps_intros

lemma keepsD: "keeps f m \<Longrightarrow> f (snd (m w)) = f w"
  by (simp add: keeps_def)

lemma keeps_return [keeps_intros]: "keeps f (return_js x)"
  by (simp add: keeps_def return_js_def)

lemma keeps_throw [keeps_intros]: "keeps f (throw_js err)"
  by (simp add: keeps_def throw_js_def)

lemma keeps_lift [keeps_intros]: "keeps f (lift_js r)"
  by (simp add: keeps_def lift_js_def)

lemma keeps_bind [keeps_intros]:
  assumes "keeps f m" and "\<And>x. keeps f (g x)"
  shows "keeps f (bind_js m g)"
  unfolding keeps_def
proof
  fix w
  obtain r w' where mw: "m w = (r, w')" by (cases "m w")
  have w': "f w' = f w" using keepsD [OF assms(1), of w] mw by simp
  show "f (snd (bind_js m g w)) = f w"
  proof (cases r)
    case (Inl err)
    then show ?thesis using mw w' by (simp add: bind_js_def)
  next
    case (Inr x)
    then show ?thesis using mw w' keepsD [OF assms(2), of x w'] by (simp add: bind_js_def)
  qed
qed

lemma keeps_catch [keeps_intros]:
  assumes "keeps f m" and "\<And>err. keeps f (h err)"
  shows "keeps f (catch_js m h)"
  unfolding keeps_def
proof
  fix w
  obtain r w' where mw: "m w = (r, w')" by (cases "m w")
  have w': "f w' = f w" using keepsD [OF assms(1), of w] mw by simp
  show "f (snd (catch_js m h w)) = f w"
  proof (cases r)
    case (Inl err)
    then show ?thesis using mw w' keepsD [OF assms(2), of err w'] by (simp add: catch_js_def)
  next
    case (Inr x)
    then show ?thesis using mw w' by (simp add: catch_js_def)
  qed
qed

lemma keeps_run_all_Nil [keeps_intros]: "keeps f (run_all [])"
  by (simp add: keeps_return)

lemma keeps_run_all_Cons [keeps_intros]:
  "keeps f m \<Longrightarrow> keeps f (run_all ms) \<Longrightarrow> keeps f (run_all (m # ms))"
  by (simp add: keeps_bind)

lemma keeps_if [keeps_intros]:
  "keeps f m \<Longrightarrow> keeps f n \<Longrightarrow> keeps f (if c then m else n)"
  by simp

subsection \<open>Tearing the charts down\<close>

lemma destroy_entry_ok: "fst (destroy_entry x w) = Inr ()"
  by (cases x) (simp_all add: destroy_entry_def chart_destroy_def return_js_def)

lemma keeps_destroy_entry_manager: "keeps chartsManager (destroy_entry x)"
  by (cases x) (simp_all add: keeps_def destroy_entry_def chart_destroy_def return_js_def)

lemma keeps_destroy_entry_timers: "keeps timers (destroy_entry x)"
  by (cases x) (simp_all add: keeps_def destroy_entry_def chart_destroy_def return_js_def)

lemma run_all_ok:
  "(\<And>m w. m \<in> set ms \<Longrightarrow> fst (m w) = Inr ()) \<Longrightarrow> fst (run_all ms w) = Inr ()"
proof (induction ms arbitrary: w)
  case Nil
  then show ?case by (simp add: return_js_def)
next
  case (Cons m ms)
  obtain r w' where mw: "m w = (r, w')" by (cases "m w")
  have "fst (m w) = Inr ()" using Cons.prems by simp
  with mw have r: "r = Inr ()" by simp
  have "fst (run_all ms w') = Inr ()" using Cons.IH Cons.prems by simp
  then show ?case using mw r by (simp add: bind_js_def)
qed

lemma keeps_run_all:
  "(\<And>m. m \<in> set ms \<Longrightarrow> keeps f m) \<Longrightarrow> keeps f (run_all ms)"
  by (induction ms) (simp_all add: keeps_return keeps_bind)

lemma destroy_all_ok: "fst (run_all (map destroy_entry xs) w) = Inr ()"
  by (rule run_all_ok) (auto simp: destroy_entry_ok)

lemma destroy_all_manager: "chartsManager (snd (run_all (map destroy_entry xs) w)) = chartsManager w"
  by (rule keepsD, rule keeps_run_all) (auto simp: keeps_destroy_entry_manager)

text \<open>
  C9. \<^verbatim>\<open>destroyCharts\<close> throws nothing and leaves the registry empty, whatever the
  registry holds: references to charts, \<^verbatim>\<open>null\<close>, \<^verbatim>\<open>undefined\<close> or an object without
  a \<^verbatim>\<open>destroy\<close> function. On a manager that never created a chart it returns the page
  as it was.
\<close>

theorem destroyCharts_safe:
  "fst (destroyCharts w) = Inr () \<and>
   charts (chartsManager (snd (destroyCharts w))) = [] \<and>
   destroyCharts (w\<lparr>chartsManager := new_HealthcareChartsManager\<rparr>) =
     (Inr (), w\<lparr>chartsManager := new_HealthcareChartsManager\<rparr>)"
proof -
  obtain r w1 where d: "run_all (map destroy_entry (map snd (charts (chartsManager w)))) w = (r, w1)"
    by (cases "run_all (map destroy_entry (map snd (charts (chartsManager w)))) w")
  have r: "r = Inr ()" using destroy_all_ok [of "map snd (charts (chartsManager w))" w] d by simp
  have run: "destroyCharts w = stopAutoUpdate (w1\<lparr>chartsManager := (chartsManager w1)\<lparr>charts := []\<rparr>\<rparr>)"
    using d r by (simp add: destroyCharts_def bind_js_def set_charts_def)
  have a: "fst (destroyCharts w) = Inr ()"
    unfolding run by (simp add: stopAutoUpdate_result)
  have b: "charts (chartsManager (snd (destroyCharts w))) = []"
    unfolding run
    by (simp add: stopAutoUpdate_def return_js_def bind_js_def clearInterval_def
        set_updateInterval_def split: option.splits)
  have c: "destroyCharts (w\<lparr>chartsManager := new_HealthcareChartsManager\<rparr>) =
     (Inr (), w\<lparr>chartsManager := new_HealthcareChartsManager\<rparr>)"
    by (simp add: destroyCharts_def bind_js_def set_charts_def new_HealthcareChartsManager_def
        return_js_def stopAutoUpdate_def id_truthy_def)
  from a b c show ?thesis by blast
qed

subsection \<open>Updating in place\<close>

lemma keeps_console_error:
  "(\<And>w c. f (w\<lparr>console := c\<rparr>) = f w) \<Longrightarrow> keeps f (console_error msg)"
  by (simp add: keeps_def console_error_def)

lemma keeps_fetchAPI:
  assumes "\<And>w c. f (w\<lparr>console := c\<rparr>) = f w"
  shows "keeps f (fetchAPI e this endpoint opts)"
  unfolding fetchAPI_def await_fetch_def response_json_def
  by (intro keeps_intros keeps_console_error assms)

lemma keeps_chart_update: "keeps f (chart_update e r)"
  by (simp add: keeps_def chart_update_def)

lemma filter_set_prop:
  "filter (\<lambda>p. fst p \<noteq> k) (set_prop k v d) = filter (\<lambda>p. fst p \<noteq> k) d"
  by (induction d) auto

lemma strip_forEach_dataset:
  "forEach_dataset rd i ds = (err, ds') \<Longrightarrow>
   map (filter (\<lambda>p. fst p \<noteq> ''data'')) ds' = map (filter (\<lambda>p. fst p \<noteq> ''data'')) ds"
proof (induction ds arbitrary: i err ds')
  case Nil
  then show ?case by simp
next
  case (Cons d ds)
  obtain err1 ds1 where rest: "forEach_dataset rd (i + 1) ds = (err1, ds1)"
    by (cases "forEach_dataset rd (i + 1) ds")
  have ih: "map (filter (\<lambda>p. fst p \<noteq> ''data'')) ds1 = map (filter (\<lambda>p. fst p \<noteq> ''data'')) ds"
    using Cons.IH [OF rest] .
  show ?case
    using Cons.prems rest ih
    by (auto simp: filter_set_prop split: sum.splits if_splits)
qed

lemma strip_set_datasets:
  "map (filter (\<lambda>p. fst p \<noteq> ''data'')) ds = map (filter (\<lambda>p. fst p \<noteq> ''data'')) (datasets (heap (w::window) r)) \<Longrightarrow>
   (\<lambda>q. strip_data (heap (set_datasets r ds w) q)) = (\<lambda>q. strip_data (heap w q))"
  by (rule ext) (simp add: set_datasets_def strip_data_def)

lemma keeps_strip_update_datasets: "keeps (\<lambda>w q. strip_data (heap w q)) (update_datasets rd r)"
  unfolding keeps_def
proof
  fix w :: window
  obtain err ds where fe: "forEach_dataset rd 0 (datasets (heap w r)) = (err, ds)"
    by (cases "forEach_dataset rd 0 (datasets (heap w r))")
  have "map (filter (\<lambda>p. fst p \<noteq> ''data'')) ds = map (filter (\<lambda>p. fst p \<noteq> ''data'')) (datasets (heap w r))"
    using strip_forEach_dataset [OF fe] .
  then have "(\<lambda>q. strip_data (heap (set_datasets r ds w) q)) = (\<lambda>q. strip_data (heap w q))"
    by (rule strip_set_datasets)
  then show "(\<lambda>q. strip_data (heap (snd (update_datasets rd r w)) q)) = (\<lambda>q. strip_data (heap w q))"
    using fe by (cases err) (simp_all add: update_datasets_def)
qed

lemma keeps_strip_set_first_data: "keeps (\<lambda>w q. strip_data (heap w q)) (set_first_data r v)"
  unfolding keeps_def
proof
  fix w :: window
  show "(\<lambda>q. strip_data (heap (snd (set_first_data r v w)) q)) = (\<lambda>q. strip_data (heap w q))"
  proof (cases "datasets (heap w r)")
    case Nil
    then show ?thesis by (simp add: set_first_data_def)
  next
    case (Cons d rest)
    then have "map (filter (\<lambda>p. fst p \<noteq> ''data'')) (set_prop ''data'' v d # rest) =
               map (filter (\<lambda>p. fst p \<noteq> ''data'')) (datasets (heap w r))"
      by (simp add: filter_set_prop)
    then have "(\<lambda>q. strip_data (heap (set_datasets r (set_prop ''data'' v d # rest) w) q)) = (\<lambda>q. strip_data (heap w q))"
      by (rule strip_set_datasets)
    then show ?thesis using Cons by (simp add: set_first_data_def)
  qed
qed

lemma keeps_other_update_datasets:
  "(\<And>w h. f (w\<lparr>heap := h\<rparr>) = f w) \<Longrightarrow> keeps f (update_datasets rd r)"
  by (simp add: keeps_def update_datasets_def set_datasets_def split: prod.splits option.splits)

lemma keeps_other_set_first_data:
  "(\<And>w h. f (w\<lparr>heap := h\<rparr>) = f w) \<Longrightarrow> keeps f (set_first_data r v)"
  by (simp add: keeps_def set_first_data_def set_datasets_def split: list.splits)

text \<open>A projection that no block of updateAllCharts changes.\<close>

lemma keeps_blocks:
  assumes c: "\<And>w c. f (w\<lparr>console := c\<rparr>) = f w"
    and u: "\<And>rd r. keeps f (update_datasets rd r)"
    and s: "\<And>r v. keeps f (set_first_data r v)"
  shows "keeps f (update_responseTime e)" and "keeps f (update_messageVolume e)"
    and "keeps f (update_healthStatus e)" and "keeps f (update_fhirTrends e)"
proof -
  note rules = keeps_intros keeps_fetchAPI [of f, OF c] u s keeps_chart_update
  have r1: "\<And>r. keeps f (bind_js (getResponseTimeAnalytics e apiClient) (\<lambda>responseData.
          bind_js (update_datasets responseData r) (\<lambda>_. chart_update e r)))"
    unfolding getResponseTimeAnalytics_def by (intro rules)
  have r2: "keeps f (bind_js (getResponseTimeAnalytics e apiClient) (\<lambda>responseData. throw_js TypeError))"
    unfolding getResponseTimeAnalytics_def by (intro rules)
  show "keeps f (update_responseTime e)"
    unfolding keeps_def update_responseTime_def
    using keepsD [OF r1] keepsD [OF r2] by (auto simp: return_js_def split: entry.splits)
  have m1: "\<And>r. keeps f (bind_js (getMessageVolumeAnalytics e apiClient) (\<lambda>volumeData.
          bind_js (lift_js (get_prop volumeData ''data'')) (\<lambda>v.
          bind_js (set_first_data r v) (\<lambda>_. chart_update e r))))"
    unfolding getMessageVolumeAnalytics_def by (intro rules)
  have m2: "keeps f (bind_js (getMessageVolumeAnalytics e apiClient) (\<lambda>volumeData. throw_js TypeError))"
    unfolding getMessageVolumeAnalytics_def by (intro rules)
  show "keeps f (update_messageVolume e)"
    unfolding keeps_def update_messageVolume_def
    using keepsD [OF m1] keepsD [OF m2] by (auto simp: return_js_def split: entry.splits)
  have h1: "\<And>r. keeps f (bind_js (getSystemHealthAnalytics e apiClient) (\<lambda>healthData.
          bind_js (lift_js (get_prop healthData ''data'')) (\<lambda>v.
          bind_js (set_first_data r v) (\<lambda>_. chart_update e r))))"
    unfolding getSystemHealthAnalytics_def by (intro rules)
  have h2: "keeps f (bind_js (getSystemHealthAnalytics e apiClient) (\<lambda>healthData. throw_js TypeError))"
    unfolding getSystemHealthAnalytics_def by (intro rules)
  show "keeps f (update_healthStatus e)"
    unfolding keeps_def update_healthStatus_def
    using keepsD [OF h1] keepsD [OF h2] by (auto simp: return_js_def split: entry.splits)
  have f1: "\<And>r. keeps f (bind_js (set_first_data r (fhir_newData e)) (\<lambda>_. chart_update e r))"
    by (intro rules)
  show "keeps f (update_fhirTrends e)"
    unfolding keeps_def update_fhirTrends_def
    using keepsD [OF f1] by (auto simp: return_js_def throw_js_def split: entry.splits)
qed

lemma keeps_updateAllCharts:
  assumes c: "\<And>w c. f (w\<lparr>console := c\<rparr>) = f w"
    and u: "\<And>rd r. keeps f (update_datasets rd r)"
    and s: "\<And>r v. keeps f (set_first_data r v)"
  shows "keeps f (updateAllCharts e)"
  unfolding updateAllCharts_def updateAllCharts_try_def
  by (intro keeps_intros keeps_console_error keeps_blocks c u s)

text \<open>
  C4. \<^verbatim>\<open>updateAllCharts\<close> writes the \<^verbatim>\<open>data\<close> of datasets and nothing else of a chart
  object: the registry is the same list of names and references after the update as
  before, no chart object is constructed, none is destroyed, and every chart object is
  what it was but for the data of its datasets.
\<close>

theorem updateAllCharts_in_place:
  "charts (chartsManager (snd (updateAllCharts e w))) = charts (chartsManager w) \<and>
   next_chart (snd (updateAllCharts e w)) = next_chart w \<and>
   (\<forall>r. strip_data (heap (snd (updateAllCharts e w)) r) = strip_data (heap w r)) \<and>
   (\<forall>r. destroyed (heap (snd (updateAllCharts e w)) r) = destroyed (heap w r))"
proof -
  have "keeps chartsManager (updateAllCharts e)"
    by (rule keeps_updateAllCharts) (simp_all add: keeps_other_update_datasets keeps_other_set_first_data)
  then have a: "charts (chartsManager (snd (updateAllCharts e w))) = charts (chartsManager w)"
    by (simp add: keepsD)
  have "keeps next_chart (updateAllCharts e)"
    by (rule keeps_updateAllCharts) (simp_all add: keeps_other_update_datasets keeps_other_set_first_data)
  then have b: "next_chart (snd (updateAllCharts e w)) = next_chart w"
    by (simp add: keepsD)
  have "keeps (\<lambda>w q. strip_data (heap w q)) (updateAllCharts e)"
    by (rule keeps_updateAllCharts) (simp_all add: keeps_strip_update_datasets keeps_strip_set_first_data)
  then have "(\<lambda>q. strip_data (heap (snd (updateAllCharts e w)) q)) = (\<lambda>q. strip_data (heap w q))"
    by (rule keepsD)
  then have c: "\<forall>r. strip_data (heap (snd (updateAllCharts e w)) r) = strip_data (heap w r)"
    by (simp add: fun_eq_iff)
  have d: "\<forall>r. destroyed (heap (snd (updateAllCharts e w)) r) = destroyed (heap w r)"
  proof
    fix r
    have "destroyed (strip_data (heap (snd (updateAllCharts e w)) r)) =
          destroyed (strip_data (heap w r))"
      using c by simp
    then show "destroyed (heap (snd (updateAllCharts e w)) r) = destroyed (heap w r)"
      by (simp add: strip_data_def)
  qed
  from a b c d show ?thesis by blast
qed

subsection \<open>The cycle boundary\<close>

lemma catch_logged_ok: "fst (catch_js m (\<lambda>error. console_error msg) w) = Inr ()"
  by (cases "m w") (auto simp: catch_js_def console_error_def split: sum.splits)

lemma catch_logged_error:
  "fst (m w) = Inl err \<Longrightarrow>
   catch_js m (\<lambda>error. console_error msg) w =
     (Inr (), (snd (m w))\<lparr>console := console (snd (m w)) @ [(LogError, msg)]\<rparr>)"
  by (cases "m w") (auto simp: catch_js_def console_error_def)

lemma fetchAPI_rejected:
  "fetchAPI (host (service [])) apiClient endpoint no_options w =
     (Inl NetworkError,
      w\<lparr>console := console w @ [(LogError, ''API Client Error for '' @ endpoint)]\<rparr>)"
  by (simp add: fetchAPI_def catch_js_def bind_js_def await_fetch_def lift_js_def
      host_def service_def console_error_def throw_js_def)

lemma refreshAllMetrics_try_rejected:
  "refreshAllMetrics_try (host (service [])) w =
     (Inl NetworkError,
      w\<lparr>console := console w @ [(LogError, ''API Client Error for /api/fhir/metrics'')]\<rparr>)"
  by (simp add: refreshAllMetrics_try_def getFHIRMetrics_def bind_js_def fetchAPI_rejected)

lemma charts_page_simps:
  "elements (charts_page els cs) = map_of els"
  "console (charts_page els cs) = []"
  "next_chart (charts_page els cs) = 0"
  "heap (charts_page els cs) = (\<lambda>r. no_chart)"
  "charts (chartsManager (charts_page els cs)) = cs"
  "get_chart (charts_page els cs) name = (case map_of cs name of None \<Rightarrow> Undefined | Some x \<Rightarrow> x)"
  by (simp_all add: charts_page_def page_def get_chart_def)

lemma updateAllCharts_try_rejected:
  "get_chart w ''responseTime'' = Undefined \<Longrightarrow> get_chart w ''messageVolume'' = Ref r \<Longrightarrow>
   updateAllCharts_try (host (service [])) w =
   (Inl NetworkError,
    w\<lparr>console := console w @ [(LogError, ''API Client Error for /api/analytics/message-volume'')]\<rparr>)"
  by (simp add: updateAllCharts_try_def update_responseTime_def update_messageVolume_def
      getMessageVolumeAnalytics_def bind_js_def return_js_def fetchAPI_rejected)

text \<open>
  C5. Whatever the fetches of a cycle do, and whatever else throws inside the
  \<^verbatim>\<open>try\<close> block, \<^verbatim>\<open>refreshAllMetrics\<close> and \<^verbatim>\<open>updateAllCharts\<close> return normally; an
  error thrown by the block ends as one more line of \<^verbatim>\<open>console.error\<close>.
\<close>

theorem cycles_never_throw:
  "fst (refreshAllMetrics e w) = Inr () \<and>
   fst (updateAllCharts e w) = Inr () \<and>
   (\<forall>err. fst (refreshAllMetrics_try e w) = Inl err \<longrightarrow>
      refreshAllMetrics e w =
        (Inr (), (snd (refreshAllMetrics_try e w))
           \<lparr>console := console (snd (refreshAllMetrics_try e w)) @
              [(LogError, ''Error refreshing metrics:'')]\<rparr>)) \<and>
   (\<forall>err. fst (updateAllCharts_try e w) = Inl err \<longrightarrow>
      updateAllCharts e w =
        (Inr (), (snd (updateAllCharts_try e w))
           \<lparr>console := console (snd (updateAllCharts_try e w)) @
              [(LogError, ''Error updating charts:'')]\<rparr>))"
  unfolding refreshAllMetrics_def updateAllCharts_def
  by (simp add: catch_logged_ok catch_logged_error)

text \<open>A service that rejects every request, and a page with one chart registered.\<close>

theorem cycles_never_throw_witness:
  "fst (refreshAllMetrics_try (host (service []))
     (charts_page [] [(''messageVolume'', Ref 0)])) =
     Inl NetworkError \<and>
   fst (updateAllCharts_try (host (service []))
     (charts_page [] [(''messageVolume'', Ref 0)])) =
     Inl NetworkError \<and>
   fst (refreshAllMetrics (host (service []))
     (charts_page [] [(''messageVolume'', Ref 0)])) =
     Inr () \<and>
   console (snd (refreshAllMetrics (host (service []))
     (charts_page [] [(''messageVolume'', Ref 0)]))) =
     [(LogError, ''API Client Error for /api/fhir/metrics''),
      (LogError, ''Error refreshing metrics:'')] \<and>
   fst (updateAllCharts (host (service []))
     (charts_page [] [(''messageVolume'', Ref 0)])) =
     Inr () \<and>
   console (snd (updateAllCharts (host (service []))
     (charts_page [] [(''messageVolume'', Ref 0)]))) =
     [(LogError, ''API Client Error for /api/analytics/message-volume''),
      (LogError, ''Error updating charts:'')]"
  using cycles_never_throw [of "host (service [])"
      "charts_page [] [(''messageVolume'', Ref 0)]"]
  by (simp add: refreshAllMetrics_try_rejected updateAllCharts_try_rejected charts_page_simps)

subsection \<open>Decimal digits\<close>

lemma dec_digits_small: "n < 10 \<Longrightarrow> dec_digits n = [digit n]"
  by (simp add: dec_digits.simps)

lemma dec_digits_large: "10 \<le> n \<Longrightarrow> dec_digits n = dec_digits (n div 10) @ [digit (n mod 10)]"
  by (subst dec_digits.simps) simp

lemma dec_digits_nonempty: "dec_digits n \<noteq> []"
  by (subst dec_digits.simps) simp

lemma digit_0: "digit 0 = CHR ''0''"
  by (simp add: digit_def)

lemma fixed_digits_one:
  "fixed_digits (Suc 0) n = dec_digits (n div 10) @ ''.'' @ dec_digits (n mod 10)"
proof (cases "n < 10")
  case True
  then show ?thesis by (simp add: fixed_digits_def dec_digits_small Let_def digit_0)
next
  case False
  then have n: "dec_digits n = dec_digits (n div 10) @ [digit (n mod 10)]"
    by (simp add: dec_digits_large)
  have len: "0 < length (dec_digits (n div 10))"
    using dec_digits_nonempty [of "n div 10"] by simp
  have m: "dec_digits (n mod 10) = [digit (n mod 10)]"
    by (simp add: dec_digits_small)
  show ?thesis
    using len by (simp add: fixed_digits_def n m Let_def)
qed

lemma toFixed_one_decimal:
  "\<bar>r\<bar> < 10 ^ 21 \<Longrightarrow> toFixed e (Suc 0) (Fin r) = one_decimal r"
  by (simp add: toFixed_def one_decimal_def fixed_digits_one Let_def)

lemma one_decimal_999: "1997 / 20 \<le> x \<Longrightarrow> x < 1999 / 20 \<Longrightarrow> one_decimal x = ''99.9''"
proof -
  assume a: "1997 / 20 \<le> x" and b: "x < 1999 / 20"
  have "\<lfloor>\<bar>x\<bar> * 10 + 1 / 2\<rfloor> = 999"
    using a b by (simp add: floor_eq_iff)
  then have n: "nat \<lfloor>\<bar>x\<bar> * 10 + 1 / 2\<rfloor> = 999" by simp
  have d1: "dec_digits 99 = ''99''" by code_simp
  have d2: "dec_digits 9 = ''9''" by code_simp
  have pos: "\<not> x < 0" using a by simp
  show ?thesis unfolding one_decimal_def n Let_def using pos by (simp add: d1 d2)
qed

subsection \<open>Rounding to binary64\<close>


















subsection \<open>The health status chart\<close>

lemma get_prop_prop: "v \<noteq> JNull \<Longrightarrow> v \<noteq> JUndefined \<Longrightarrow> get_prop v k = Inr (prop_of v k)"
  by (cases v) (simp_all add: prop_of_def)

lemma fetchAPI_ok:
  "fetch e \<lparr>url = ep, http_method = ''GET'', body = None\<rparr> = Responded r \<Longrightarrow> ok r \<Longrightarrow>
   json r = Some data \<Longrightarrow> fetchAPI e apiClient ep no_options w = (Inr data, w)"
  by (simp add: fetchAPI_def catch_js_def bind_js_def await_fetch_def lift_js_def
      response_json_def return_js_def apiClient_def no_options_def)

lemma map_of_assign: "map_of (assign k v xs) = (map_of xs)(k \<mapsto> v)"
  by (induction xs) (auto simp: fun_eq_iff)


lemma createHealthStatusChart_created:
  assumes "elements w ''healthStatusChart'' = Some c"
    and "fetch e \<lparr>url = ''/api/analytics/system-health'', http_method = ''GET'', body = None\<rparr> =
           Responded r"
    and "ok r" and "json r = Some data" and "data \<noteq> JNull" and "data \<noteq> JUndefined"
    and "\<not> chart_throws e ''healthStatusChart''" and "\<not> canvas_in_use w ''healthStatusChart''"
  shows "createHealthStatusChart e w =
     (Inr (),
      w\<lparr>heap := (heap w)(next_chart w :=
            \<lparr>canvas = ''healthStatusChart'', ctype = ''bar'',
             labels = prop_of data ''labels'',
             datasets =
               [[(''label'', JStr ''Uptime %''),
                 (''data'', prop_of data ''data''),
                 (''backgroundColor'', prop_of data ''backgroundColor''),
                 (''borderRadius'', num 8),
                 (''borderSkipped'', JBool False),
                 (''borderWidth'', num 1),
                 (''borderColor'', JStr ''#ffffff'')]],
             y_beginAtZero = True, y_max = Some (Fin 100),
             tooltip_label = Some healthStatus_label, destroyed = False\<rparr>),
         next_chart := next_chart w + 1,
         chartsManager := (chartsManager w)
           \<lparr>charts := assign ''healthStatus'' (Ref (next_chart w)) (charts (chartsManager w))\<rparr>\<rparr>)"
  using assms
  by (simp add: createHealthStatusChart_def getSystemHealthAnalytics_def fetchAPI_ok
      catch_js_def bind_js_def lift_js_def get_prop_prop new_Chart_def set_chart_def)

lemma healthStatus_label_999:
  assumes "1997 / 20 \<le> x" and "x < 1999 / 20"
  shows "healthStatus_label e (ctx\<lparr>parsed_y := Fin x\<rparr>) = ''Uptime: 99.9%''"
proof -
  have "\<bar>x\<bar> < 10 ^ 21" using assms by simp
  then have "toFixed e (Suc 0) (Fin x) = one_decimal x" by (rule toFixed_one_decimal)
  then show ?thesis using assms by (simp add: healthStatus_label_def one_decimal_999)
qed

lemma y_max_strip: "y_max (strip_data c) = y_max c"
  by (simp add: strip_data_def)

lemma updateAllCharts_strip:
  "strip_data (heap (snd (updateAllCharts e w)) r) = strip_data (heap w r)"
proof -
  have "keeps (\<lambda>w q. strip_data (heap w q)) (updateAllCharts e)"
    by (rule keeps_updateAllCharts) (simp_all add: keeps_strip_update_datasets keeps_strip_set_first_data)
  then have "(\<lambda>q. strip_data (heap (snd (updateAllCharts e w)) q)) = (\<lambda>q. strip_data (heap w q))"
    by (rule keepsD)
  then show ?thesis by (simp add: fun_eq_iff)
qed

text \<open>
  C7. The health status chart is created, on a canvas that is free, with the maximum of
  its y axis at 100, whatever data the service answered, and \<^verbatim>\<open>updateAllCharts\<close> never changes that bound. The
  tooltip of a bar whose value is 99.9 reads \<^verbatim>\<open>Uptime: 99.9%\<close>; so it does for every
  value from 99.85 up to, not including, 99.95, among them the binary64 number nearest
  to 99.9.
\<close>

theorem healthStatus_axis_and_tooltip:
  assumes "elements w ''healthStatusChart'' = Some c"
    and "fetch e \<lparr>url = ''/api/analytics/system-health'', http_method = ''GET'', body = None\<rparr> =
           Responded r"
    and "ok r" and "json r = Some data" and "data \<noteq> JNull" and "data \<noteq> JUndefined"
    and "\<not> chart_throws e ''healthStatusChart''" and "\<not> canvas_in_use w ''healthStatusChart''"
  shows "get_chart (snd (createHealthStatusChart e w)) ''healthStatus'' = Ref (next_chart w) \<and>
         y_max (heap (snd (createHealthStatusChart e w)) (next_chart w)) = Some (Fin 100) \<and>
         tooltip_label (heap (snd (createHealthStatusChart e w)) (next_chart w)) =
           Some healthStatus_label \<and>
         (\<forall>e' w' r'. y_max (heap (snd (updateAllCharts e' w')) r') = y_max (heap w' r')) \<and>
         healthStatus_label e (ctx\<lparr>parsed_y := Fin (999 / 10)\<rparr>) = ''Uptime: 99.9%'' \<and>
         (\<forall>x. 1997 / 20 \<le> x \<and> x < 1999 / 20 \<longrightarrow>
              healthStatus_label e (ctx\<lparr>parsed_y := Fin x\<rparr>) = ''Uptime: 99.9%'')"
proof -
  note created = createHealthStatusChart_created [OF assms]
  have a: "get_chart (snd (createHealthStatusChart e w)) ''healthStatus'' = Ref (next_chart w)"
    by (simp add: created get_chart_def map_of_assign)
  have b: "y_max (heap (snd (createHealthStatusChart e w)) (next_chart w)) = Some (Fin 100)"
    by (simp add: created)
  have c: "tooltip_label (heap (snd (createHealthStatusChart e w)) (next_chart w)) =
           Some healthStatus_label"
    by (simp add: created)
  have d: "\<forall>e' w' r'. y_max (heap (snd (updateAllCharts e' w')) r') = y_max (heap w' r')"
  proof (intro allI)
    fix e' w' r'
    have "y_max (strip_data (heap (snd (updateAllCharts e' w')) r')) = y_max (strip_data (heap w' r'))"
      by (simp add: updateAllCharts_strip)
    then show "y_max (heap (snd (updateAllCharts e' w')) r') = y_max (heap w' r')"
      by (simp add: y_max_strip)
  qed
  have f: "\<forall>x. 1997 / 20 \<le> x \<and> x < 1999 / 20 \<longrightarrow>
              healthStatus_label e (ctx\<lparr>parsed_y := Fin x\<rparr>) = ''Uptime: 99.9%''"
    by (simp add: healthStatus_label_999)
  have g: "healthStatus_label e (ctx\<lparr>parsed_y := Fin (999 / 10)\<rparr>) = ''Uptime: 99.9%''"
    by (rule healthStatus_label_999) simp_all
  from a b c d f g show ?thesis by blast
qed

lemma page_simps:
  "elements (page els) = map_of els"
  "console (page els) = []"
  "next_chart (page els) = 0"
  "heap (page els) = (\<lambda>r. no_chart)"
  "charts (chartsManager (page els)) = []"
  by (simp_all add: page_def new_HealthcareChartsManager_def)

text \<open>
  The scenario of the specification: the service answers the labels EpicAPI and
  CernerAPI with the data 99.9 and 97.2.
\<close>

theorem healthStatus_axis_and_tooltip_witness:
  "get_chart (snd (createHealthStatusChart (host health_service) (page [(''healthStatusChart'', JStr [])])))
     ''healthStatus'' = Ref 0 \<and>
   y_max (heap (snd (createHealthStatusChart (host health_service)
     (page [(''healthStatusChart'', JStr [])]))) 0) = Some (Fin 100) \<and>
   tooltip_text (host health_service)
     (heap (snd (createHealthStatusChart (host health_service)
        (page [(''healthStatusChart'', JStr [])]))) 0) 0 = Some ''Uptime: 99.9%''"
proof -
  let ?data = "JObj [(''labels'', JArr [JStr ''EpicAPI'', JStr ''CernerAPI'']),
                      (''data'', JArr [num (999 / 10), num (486 / 5)])]"
  let ?r = "\<lparr>status = 200, statusText = ''OK'', body_text = [], json = Some ?data\<rparr>"
  let ?w = "page [(''healthStatusChart'', JStr [])]"
  let ?e = "host health_service"
  have h1: "elements ?w ''healthStatusChart'' = Some (JStr [])" by (simp add: page_simps)
  have h2: "fetch ?e \<lparr>url = ''/api/analytics/system-health'', http_method = ''GET'', body = None\<rparr> =
           Responded ?r"
    by (simp add: host_def health_service_def service_def json_ok_def)
  have h3: "ok ?r" by (simp add: ok_def)
  have h4: "json ?r = Some ?data" by simp
  have h5: "?data \<noteq> JNull" "?data \<noteq> JUndefined" by simp_all
  have h6: "\<not> chart_throws ?e ''healthStatusChart''" by (simp add: host_def)
  have h7: "\<not> canvas_in_use ?w ''healthStatusChart''" by (simp add: canvas_in_use_def page_simps)
  note main = healthStatus_axis_and_tooltip [OF h1 h2 h3 h4 h5 h6 h7]
  note created = createHealthStatusChart_created [OF h1 h2 h3 h4 h5 h6 h7]
  have tip: "tooltip_text ?e (heap (snd (createHealthStatusChart ?e ?w)) 0) 0 =
     Some (healthStatus_label ?e \<lparr>ctx_label = ''EpicAPI'', parsed = Fin (999 / 10),
                    parsed_y = Fin (999 / 10), dataset_data = [Fin (999 / 10), Fin (486 / 5)]\<rparr>)"
    by (simp add: created page_simps tooltip_text_def prop_of_def num_def label_at_def)
  have "healthStatus_label ?e (\<lparr>ctx_label = ''EpicAPI'', parsed = Fin (999 / 10),
                    parsed_y = Fin 0, dataset_data = [Fin (999 / 10), Fin (486 / 5)]\<rparr>\<lparr>parsed_y := Fin (999 / 10)\<rparr>) = ''Uptime: 99.9%''"
    using main by blast
  then have lab: "healthStatus_label ?e \<lparr>ctx_label = ''EpicAPI'', parsed = Fin (999 / 10),
                    parsed_y = Fin (999 / 10), dataset_data = [Fin (999 / 10), Fin (486 / 5)]\<rparr> = ''Uptime: 99.9%''"
    by simp
  show ?thesis using main tip lab by (simp add: page_simps)
qed

subsection \<open>The message volume tooltip\<close>
















lemma digits_1247: "dec_digits 1247 = ''1247''"
  by code_simp

lemma digits_500: "dec_digits 500 = ''500''"
  by code_simp















subsection \<open>Creating a chart twice\<close>

lemma createResponseTimeChart_created:
  assumes "elements w ''responseTimeChart'' = Some c"
    and "fetch e \<lparr>url = ''/api/analytics/response-times'', http_method = ''GET'', body = None\<rparr> =
           Responded r"
    and "ok r" and "json r = Some data" and "data \<noteq> JNull" and "data \<noteq> JUndefined"
    and "line_datasets e data = Inr ds"
    and "\<not> chart_throws e ''responseTimeChart''" and "\<not> canvas_in_use w ''responseTimeChart''"
  shows "createResponseTimeChart e w =
     (Inr (),
      w\<lparr>heap := (heap w)(next_chart w :=
            \<lparr>canvas = ''responseTimeChart'', ctype = ''line'',
             labels = prop_of data ''labels'', datasets = ds,
             y_beginAtZero = True, y_max = None,
             tooltip_label = None, destroyed = False\<rparr>),
         next_chart := next_chart w + 1,
         chartsManager := (chartsManager w)
           \<lparr>charts := assign ''responseTime'' (Ref (next_chart w)) (charts (chartsManager w))\<rparr>\<rparr>)"
  using assms
  by (simp add: createResponseTimeChart_def getResponseTimeAnalytics_def fetchAPI_ok
      catch_js_def bind_js_def lift_js_def get_prop_prop new_Chart_def set_chart_def)

lemma canvas_in_use_iff:
  "canvas_in_use w c = (\<exists>r<next_chart w. canvas (heap w r) = c \<and> \<not> destroyed (heap w r))"
  by (auto simp: canvas_in_use_def list_ex_iff)

lemma new_Chart_in_use:
  "canvas_in_use w (canvas config) \<Longrightarrow> new_Chart e config w = (Inl ChartError, w)"
  by (simp add: new_Chart_def)

text \<open>A call on a canvas in use changes nothing but the console.\<close>

lemma createResponseTimeChart_in_use:
  assumes used: "canvas_in_use w ''responseTimeChart''"
  shows "fst (createResponseTimeChart e w) = Inr () \<and>
         heap (snd (createResponseTimeChart e w)) = heap w \<and>
         next_chart (snd (createResponseTimeChart e w)) = next_chart w \<and>
         chartsManager (snd (createResponseTimeChart e w)) = chartsManager w \<and>
         (elements w ''responseTimeChart'' \<noteq> None \<longrightarrow>
            console (snd (createResponseTimeChart e w)) \<noteq> [] \<and>
            last (console (snd (createResponseTimeChart e w))) =
              (LogError, ''Error creating response time chart:''))"
proof (cases "elements w ''responseTimeChart''")
  case None
  then show ?thesis by (simp add: createResponseTimeChart_def console_warn_def)
next
  case (Some c)
  obtain res w1 where f: "getResponseTimeAnalytics e apiClient w = (res, w1)"
    by (cases "getResponseTimeAnalytics e apiClient w")
  have "keeps heap (getResponseTimeAnalytics e apiClient)"
    "keeps next_chart (getResponseTimeAnalytics e apiClient)"
    "keeps chartsManager (getResponseTimeAnalytics e apiClient)"
    unfolding getResponseTimeAnalytics_def by (rule keeps_fetchAPI, simp)+
  from this [THEN keepsD, of w]
  have w1: "heap w1 = heap w" "next_chart w1 = next_chart w" "chartsManager w1 = chartsManager w"
    using f by simp_all
  have used1: "canvas_in_use w1 ''responseTimeChart''"
    using used by (simp add: canvas_in_use_def w1)
  have refused: "new_Chart e
      \<lparr>canvas = ''responseTimeChart'', ctype = ''line'', labels = ls, datasets = ds,
       y_beginAtZero = True, y_max = None, tooltip_label = None, destroyed = False\<rparr> w1 =
      (Inl ChartError, w1)" for ls ds
    by (rule new_Chart_in_use) (simp add: used1)
  have "createResponseTimeChart e w =
          (Inr (), w1\<lparr>console := console w1 @ [(LogError, ''Error creating response time chart:'')]\<rparr>)"
  proof (cases res)
    case (Inl err)
    then show ?thesis
      using Some f by (simp add: createResponseTimeChart_def catch_js_def bind_js_def console_error_def)
  next
    case (Inr data)
    show ?thesis
    proof (cases "get_prop data ''labels''")
      case (Inl err)
      then show ?thesis
        using Some f Inr
        by (simp add: createResponseTimeChart_def catch_js_def bind_js_def console_error_def
            lift_js_def)
    next
      case labels: (Inr ls)
      show ?thesis
      proof (cases "line_datasets e data")
        case (Inl err)
        then show ?thesis
          using Some f Inr labels
          by (simp add: createResponseTimeChart_def catch_js_def bind_js_def console_error_def
              lift_js_def)
      next
        case ds: (Inr ds)
        show ?thesis
          using Some f Inr labels ds
          by (simp add: createResponseTimeChart_def catch_js_def bind_js_def console_error_def
              lift_js_def refused)
      qed
    qed
  qed
  then show ?thesis by (simp add: w1)
qed

lemma fetchAPI_frame:
  "heap (snd (fetchAPI e this ep opts w)) = heap w \<and>
   next_chart (snd (fetchAPI e this ep opts w)) = next_chart w \<and>
   chartsManager (snd (fetchAPI e this ep opts w)) = chartsManager w \<and>
   elements (snd (fetchAPI e this ep opts w)) = elements w"
proof -
  have "keeps heap (fetchAPI e this ep opts)" "keeps next_chart (fetchAPI e this ep opts)"
    "keeps chartsManager (fetchAPI e this ep opts)" "keeps elements (fetchAPI e this ep opts)"
    by (rule keeps_fetchAPI, simp)+
  from this [THEN keepsD, of w] show ?thesis by simp
qed

lemma createMessageVolumeChart_in_use:
  assumes used: "canvas_in_use w ''messageVolumeChart''"
  shows "fst (createMessageVolumeChart e w) = Inr () \<and>
         heap (snd (createMessageVolumeChart e w)) = heap w \<and>
         next_chart (snd (createMessageVolumeChart e w)) = next_chart w \<and>
         chartsManager (snd (createMessageVolumeChart e w)) = chartsManager w \<and>
         (elements w ''messageVolumeChart'' \<noteq> None \<longrightarrow>
            console (snd (createMessageVolumeChart e w)) \<noteq> [] \<and>
            last (console (snd (createMessageVolumeChart e w))) =
              (LogError, ''Error creating message volume chart:''))"
proof (cases "elements w ''messageVolumeChart''")
  case None
  then show ?thesis by (simp add: createMessageVolumeChart_def console_warn_def)
next
  case (Some c)
  obtain res w1 where f: "getMessageVolumeAnalytics e apiClient w = (res, w1)"
    by (cases "getMessageVolumeAnalytics e apiClient w")
  have w1: "heap w1 = heap w" "next_chart w1 = next_chart w" "chartsManager w1 = chartsManager w"
    using fetchAPI_frame [of e apiClient "''/api/analytics/message-volume''" no_options w] f
    by (simp_all add: getMessageVolumeAnalytics_def)
  have used1: "canvas_in_use w1 ''messageVolumeChart''"
    using used by (simp add: canvas_in_use_def w1)
  have "createMessageVolumeChart e w =
          (Inr (), w1\<lparr>console := console w1 @ [(LogError, ''Error creating message volume chart:'')]\<rparr>)"
    using Some f used1
    by (simp add: createMessageVolumeChart_def catch_js_def bind_js_def console_error_def
        lift_js_def new_Chart_def split: sum.splits)
  then show ?thesis by (simp add: w1)
qed

lemma createHealthStatusChart_in_use:
  assumes used: "canvas_in_use w ''healthStatusChart''"
  shows "fst (createHealthStatusChart e w) = Inr () \<and>
         heap (snd (createHealthStatusChart e w)) = heap w \<and>
         next_chart (snd (createHealthStatusChart e w)) = next_chart w \<and>
         chartsManager (snd (createHealthStatusChart e w)) = chartsManager w \<and>
         (elements w ''healthStatusChart'' \<noteq> None \<longrightarrow>
            console (snd (createHealthStatusChart e w)) \<noteq> [] \<and>
            last (console (snd (createHealthStatusChart e w))) =
              (LogError, ''Error creating health status chart:''))"
proof (cases "elements w ''healthStatusChart''")
  case None
  then show ?thesis by (simp add: createHealthStatusChart_def console_warn_def)
next
  case (Some c)
  obtain res w1 where f: "getSystemHealthAnalytics e apiClient w = (res, w1)"
    by (cases "getSystemHealthAnalytics e apiClient w")
  have w1: "heap w1 = heap w" "next_chart w1 = next_chart w" "chartsManager w1 = chartsManager w"
    using fetchAPI_frame [of e apiClient "''/api/analytics/system-health''" no_options w] f
    by (simp_all add: getSystemHealthAnalytics_def)
  have used1: "canvas_in_use w1 ''healthStatusChart''"
    using used by (simp add: canvas_in_use_def w1)
  have "createHealthStatusChart e w =
          (Inr (), w1\<lparr>console := console w1 @ [(LogError, ''Error creating health status chart:'')]\<rparr>)"
    using Some f used1
    by (simp add: createHealthStatusChart_def catch_js_def bind_js_def console_error_def
        lift_js_def new_Chart_def split: sum.splits)
  then show ?thesis by (simp add: w1)
qed

lemma createFHIRTrendsChart_in_use:
  assumes used: "canvas_in_use w ''fhirTrendsChart''"
  shows "fst (createFHIRTrendsChart e w) = Inr () \<and>
         heap (snd (createFHIRTrendsChart e w)) = heap w \<and>
         next_chart (snd (createFHIRTrendsChart e w)) = next_chart w \<and>
         chartsManager (snd (createFHIRTrendsChart e w)) = chartsManager w \<and>
         (elements w ''fhirTrendsChart'' \<noteq> None \<longrightarrow>
            console (snd (createFHIRTrendsChart e w)) \<noteq> [] \<and>
            last (console (snd (createFHIRTrendsChart e w))) =
              (LogError, ''Error creating FHIR trends chart:''))"
proof (cases "elements w ''fhirTrendsChart''")
  case None
  then show ?thesis by (simp add: createFHIRTrendsChart_def console_warn_def)
next
  case (Some c)
  have "createFHIRTrendsChart e w =
          (Inr (), w\<lparr>console := console w @ [(LogError, ''Error creating FHIR trends chart:'')]\<rparr>)"
    using Some used
    by (simp add: createFHIRTrendsChart_def catch_js_def bind_js_def console_error_def
        new_Chart_def)
  then show ?thesis by simp
qed

lemma create_in_use:
  assumes used: "canvas_in_use w (canvas_id q)"
  shows "fst (create q e w) = Inr () \<and>
         heap (snd (create q e w)) = heap w \<and>
         next_chart (snd (create q e w)) = next_chart w \<and>
         chartsManager (snd (create q e w)) = chartsManager w \<and>
         (elements w (canvas_id q) \<noteq> None \<longrightarrow>
            console (snd (create q e w)) \<noteq> [] \<and>
            last (console (snd (create q e w))) = (LogError, creation_error q))"
proof (cases q)
  case ResponseTime
  then show ?thesis using createResponseTimeChart_in_use [of w e] used by simp
next
  case MessageVolume
  then show ?thesis using createMessageVolumeChart_in_use [of w e] used by simp
next
  case HealthStatus
  then show ?thesis using createHealthStatusChart_in_use [of w e] used by simp
next
  case FHIRTrends
  then show ?thesis using createFHIRTrendsChart_in_use [of w e] used by simp
qed

text \<open>
  C2, as the code has it. No function of the module that creates a chart destroys one.
  When the handle registered by an earlier call is still live on the canvas, a second
  call throws nothing and constructs no chart: the library refuses the canvas in use,
  the error is caught and logged, and the registry and every chart object are left as
  they were. The one live handle registered afterwards is the old one, showing the data
  of the first call.
\<close>

theorem create_chart_again:
  assumes "get_chart w (registered_as q) = Ref r" and "r < next_chart w"
    and "canvas (heap w r) = canvas_id q" and "\<not> destroyed (heap w r)"
  shows "fst (create q e w) = Inr () \<and>
         get_chart (snd (create q e w)) (registered_as q) = Ref r \<and>
         heap (snd (create q e w)) = heap w \<and>
         \<not> destroyed (heap (snd (create q e w)) r) \<and>
         next_chart (snd (create q e w)) = next_chart w \<and>
         charts (chartsManager (snd (create q e w))) = charts (chartsManager w) \<and>
         (elements w (canvas_id q) \<noteq> None \<longrightarrow>
            console (snd (create q e w)) \<noteq> [] \<and>
            last (console (snd (create q e w))) = (LogError, creation_error q))"
proof -
  have "canvas_in_use w (canvas_id q)"
    unfolding canvas_in_use_iff using assms(2-4) by blast
  from create_in_use [OF this, of e] assms(1,4)
  show ?thesis by (simp add: get_chart_def)
qed

lemma times_fetch:
  "fetch (host times_service)
     \<lparr>url = ''/api/analytics/response-times'', http_method = ''GET'', body = None\<rparr> =
   Responded \<lparr>status = 200, statusText = ''OK'', body_text = [], json = Some times_data\<rparr>"
  by (simp add: host_def times_service_def service_def json_ok_def)

lemma times_line_datasets:
  "line_datasets (host times_service) times_data =
     Inr [[(''label'', JStr ''Epic''), (''data'', JArr [num 120, num 135]),
           (''borderColor'', JStr ''#0078d4''), (''backgroundColor'', JStr ''#0078d420''),
           (''borderWidth'', num 3), (''fill'', JBool True), (''tension'', num (2 / 5)),
           (''pointBackgroundColor'', JStr ''#0078d4''), (''pointBorderColor'', JStr ''#ffffff''),
           (''pointBorderWidth'', num 2), (''pointRadius'', num 4)]]"
  by (simp add: line_datasets_def line_dataset_def times_data_def plus_string_def)

lemma times_created:
  "elements w ''responseTimeChart'' = Some c \<Longrightarrow> \<not> canvas_in_use w ''responseTimeChart'' \<Longrightarrow>
   createResponseTimeChart (host times_service) w =
     (Inr (),
      w\<lparr>heap := (heap w)(next_chart w :=
            \<lparr>canvas = ''responseTimeChart'', ctype = ''line'',
             labels = JArr [JStr ''00:00'', JStr ''04:00''],
             datasets =
               [[(''label'', JStr ''Epic''), (''data'', JArr [num 120, num 135]),
                 (''borderColor'', JStr ''#0078d4''), (''backgroundColor'', JStr ''#0078d420''),
                 (''borderWidth'', num 3), (''fill'', JBool True), (''tension'', num (2 / 5)),
                 (''pointBackgroundColor'', JStr ''#0078d4''),
                 (''pointBorderColor'', JStr ''#ffffff''),
                 (''pointBorderWidth'', num 2), (''pointRadius'', num 4)]],
             y_beginAtZero = True, y_max = None,
             tooltip_label = None, destroyed = False\<rparr>),
         next_chart := next_chart w + 1,
         chartsManager := (chartsManager w)
           \<lparr>charts := assign ''responseTime'' (Ref (next_chart w)) (charts (chartsManager w))\<rparr>\<rparr>)"
proof -
  assume c: "elements w ''responseTimeChart'' = Some c"
    and free: "\<not> canvas_in_use w ''responseTimeChart''"
  have ok: "ok \<lparr>status = 200, statusText = ''OK'', body_text = [], json = Some times_data\<rparr>"
    by (simp add: ok_def)
  have d: "times_data \<noteq> JNull" "times_data \<noteq> JUndefined" by (simp_all add: times_data_def)
  have lib: "\<not> chart_throws (host times_service) ''responseTimeChart''" by (simp add: host_def)
  have ls: "prop_of times_data ''labels'' = JArr [JStr ''00:00'', JStr ''04:00'']"
    by (simp add: prop_of_def times_data_def)
  show ?thesis
    using createResponseTimeChart_created [OF c times_fetch ok _ d times_line_datasets lib free]
    by (simp add: ls)
qed

lemma times_page_simps:
  "elements times_page = map_of [(''responseTimeChart'', JStr [])]"
  "next_chart times_page = 1"
  "charts (chartsManager times_page) = [(''responseTime'', Ref 0)]"
  "destroyed (heap times_page 0) = False"
  "canvas (heap times_page 0) = ''responseTimeChart''"
  unfolding times_page_def
  by (subst times_created [of _ "JStr []"]; simp add: page_simps canvas_in_use_def)+

lemma times_in_use: "canvas_in_use times_page ''responseTimeChart''"
  by (simp add: canvas_in_use_def times_page_simps)

lemma times_page_console: "console times_page = []"
  unfolding times_page_def
  by (subst times_created [of _ "JStr []"]; simp add: page_simps canvas_in_use_def)

text \<open>
  The page after a first call, with a service that answers: the second call returns
  normally and leaves the registry and the chart objects as they were.
\<close>

theorem create_chart_again_witness:
  "get_chart times_page (registered_as ResponseTime) = Ref 0 \<and> 0 < next_chart times_page \<and>
   canvas (heap times_page 0) = canvas_id ResponseTime \<and> \<not> destroyed (heap times_page 0) \<and>
   elements times_page ''responseTimeChart'' \<noteq> None \<and>
   fst (createResponseTimeChart (host times_service) times_page) = Inr () \<and>
   get_chart (snd (createResponseTimeChart (host times_service) times_page)) ''responseTime'' =
     Ref 0 \<and>
   heap (snd (createResponseTimeChart (host times_service) times_page)) = heap times_page \<and>
   next_chart (snd (createResponseTimeChart (host times_service) times_page)) = 1 \<and>
   last (console (snd (createResponseTimeChart (host times_service) times_page))) =
     (LogError, ''Error creating response time chart:'')"
proof -
  have a: "get_chart times_page (registered_as ResponseTime) = Ref 0"
    by (simp add: get_chart_def times_page_simps)
  have b: "0 < next_chart times_page" by (simp add: times_page_simps)
  have c: "canvas (heap times_page 0) = canvas_id ResponseTime" by (simp add: times_page_simps)
  have d: "\<not> destroyed (heap times_page 0)" by (simp add: times_page_simps)
  have el: "elements times_page ''responseTimeChart'' \<noteq> None" by (simp add: times_page_simps)
  from create_chart_again [OF a b c d, of "host times_service"] a b c d el
  show ?thesis by (simp add: times_page_simps)
qed

text \<open>
  Two calls on a page that has the canvas, with a service that answers both times. After
  the second call the registry still holds the chart object of the first call, which
  was not destroyed; no second chart object exists, and the console has the line of the
  \<^verbatim>\<open>catch\<close> block.
\<close>

theorem second_createResponseTimeChart_is_refused:
  "get_chart times_page ''responseTime'' = Ref 0 \<and>
   next_chart times_page = 1 \<and>
   console times_page = [] \<and>
   get_chart (snd (createResponseTimeChart (host times_service) times_page)) ''responseTime'' =
     Ref 0 \<and>
   \<not> destroyed (heap (snd (createResponseTimeChart (host times_service) times_page)) 0) \<and>
   next_chart (snd (createResponseTimeChart (host times_service) times_page)) = 1 \<and>
   console (snd (createResponseTimeChart (host times_service) times_page)) =
     [(LogError, ''Error creating response time chart:'')]"
proof -
  have el: "elements times_page ''responseTimeChart'' = Some (JStr [])"
    by (simp add: times_page_simps)
  have ok: "ok \<lparr>status = 200, statusText = ''OK'', body_text = [], json = Some times_data\<rparr>"
    by (simp add: ok_def)
  have fetched: "getResponseTimeAnalytics (host times_service) apiClient times_page =
      (Inr times_data, times_page)"
    unfolding getResponseTimeAnalytics_def by (rule fetchAPI_ok [OF times_fetch ok]) simp
  have ls: "get_prop times_data ''labels'' = Inr (JArr [JStr ''00:00'', JStr ''04:00''])"
    by (simp add: times_data_def)
  have run: "createResponseTimeChart (host times_service) times_page =
      (Inr (), times_page\<lparr>console := console times_page @
         [(LogError, ''Error creating response time chart:'')]\<rparr>)"
    using times_in_use
    by (simp add: createResponseTimeChart_def el catch_js_def bind_js_def lift_js_def fetched ls
        times_line_datasets new_Chart_def console_error_def)
  show ?thesis
    unfolding run by (simp add: get_chart_def times_page_simps times_page_console)
qed

subsection \<open>A failing query in a refresh cycle\<close>

lemma hideLoading_put:
  "hideLoading x c w = (Inr (), w\<lparr>elements := put x c (elements w)\<rparr>)"
  by (simp add: hideLoading_def put_def split: option.splits)

lemma fetched_ok:
  "fetched e q = Some m \<Longrightarrow> fetchAPI e apiClient (endpoint_of q) no_options w = (Inr m, w)"
  by (auto simp: fetched_def fetchAPI_ok split: fetch_outcome.splits if_splits)

lemma fetched_fails:
  "fetched e q = None \<Longrightarrow> \<exists>err. fst (fetchAPI e apiClient (endpoint_of q) no_options w) = Inl err"
  by (auto simp: fetched_def fetchAPI_def catch_js_def bind_js_def await_fetch_def lift_js_def
      response_json_def console_error_def throw_js_def return_js_def apiClient_def no_options_def
      split: fetch_outcome.splits option.splits if_splits)

lemma keeps_bind_fails:
  assumes "\<And>w. \<exists>err. fst (m w) = Inl err" and "keeps f m"
  shows "keeps f (bind_js m g)"
  unfolding keeps_def
proof
  fix w
  obtain err where "fst (m w) = Inl err" using assms(1) by blast
  then obtain w' where mw: "m w = (Inl err, w')" by (cases "m w") auto
  then show "f (snd (bind_js m g w)) = f w"
    using keepsD [OF assms(2), of w] by (simp add: bind_js_def)
qed

lemma keeps_hideLoading_other:
  "x \<noteq> y \<Longrightarrow> keeps (\<lambda>w. elements w x) (hideLoading y c)"
  by (simp add: keeps_def hideLoading_def split: option.splits)

lemma keeps_show_prop_other:
  "x \<noteq> y \<Longrightarrow> keeps (\<lambda>w. elements w x) (show_prop y g m k)"
  unfolding show_prop_def by (intro keeps_intros keeps_hideLoading_other)

lemma keeps_elements_fetchAPI: "keeps (\<lambda>w. elements w x) (fetchAPI e this ep opts)"
  by (rule keeps_fetchAPI) simp

lemma refresh_frame:
  assumes fails: "fetched e q = None"
    and x: "\<forall>q'. position q' < position q \<longrightarrow> x \<notin> set (widgets q')"
  shows "keeps (\<lambda>w. elements w x) (refreshAllMetrics_try e)"
proof -
  note fail_rule = keeps_bind_fails [of "fetchAPI e apiClient (endpoint_of q) no_options"
      "\<lambda>w. elements w x", OF fetched_fails [OF fails] keeps_elements_fetchAPI]
  show ?thesis
  proof (cases q)
    case FHIR
    show ?thesis
      unfolding refreshAllMetrics_try_def getFHIRMetrics_def
      using fail_rule [unfolded FHIR] by simp
  next
    case HL7
    have "x \<notin> set (widgets FHIR)" using x [THEN spec, of FHIR] HL7 by simp
    then show ?thesis
      unfolding refreshAllMetrics_try_def getFHIRMetrics_def getHL7Metrics_def
      by (intro fail_rule [unfolded HL7 endpoint_of.simps] keeps_intros keeps_elements_fetchAPI
          keeps_show_prop_other) simp_all
  next
    case Epic
    have "x \<notin> set (widgets FHIR)" "x \<notin> set (widgets HL7)"
      using x [THEN spec, of FHIR] x [THEN spec, of HL7] Epic by simp_all
    then show ?thesis
      unfolding refreshAllMetrics_try_def getFHIRMetrics_def getHL7Metrics_def getEpicMetrics_def
      by (intro fail_rule [unfolded Epic endpoint_of.simps] keeps_intros keeps_elements_fetchAPI
          keeps_show_prop_other) simp_all
  next
    case Azure
    have "x \<notin> set (widgets FHIR)" "x \<notin> set (widgets HL7)" "x \<notin> set (widgets Epic)"
      using x [THEN spec, of FHIR] x [THEN spec, of HL7] x [THEN spec, of Epic] Azure by simp_all
    then show ?thesis
      unfolding refreshAllMetrics_try_def getFHIRMetrics_def getHL7Metrics_def getEpicMetrics_def
        getAzureMetrics_def
      by (intro fail_rule [unfolded Azure endpoint_of.simps] keeps_intros keeps_elements_fetchAPI
          keeps_show_prop_other) simp_all
  qed
qed

lemma put_other: "x \<noteq> y \<Longrightarrow> put y c els x = els x"
  by (simp add: put_def split: option.splits)

lemma put_same: "els x \<noteq> None \<Longrightarrow> put x c els x = Some c"
  by (simp add: put_def split: option.splits)

lemma put_dom: "(put y c els x = None) = (els x = None)"
  by (simp add: put_def split: option.splits)

lemma put_all_other: "x \<notin> fst ` set kvs \<Longrightarrow> put_all kvs els x = els x"
proof (induction kvs arbitrary: els)
  case Nil
  show ?case by simp
next
  case (Cons p kvs)
  obtain y c where p: "p = (y, c)" by (cases p)
  have ne: "x \<noteq> y" and rest: "x \<notin> fst ` set kvs" using Cons.prems p by auto
  have "put_all kvs (put y c els) x = put y c els x" using Cons.IH [OF rest] .
  then show ?case using p ne by (simp add: put_other)
qed

lemma put_all_member:
  "distinct (map fst kvs) \<Longrightarrow> (x, v) \<in> set kvs \<Longrightarrow> els x \<noteq> None \<Longrightarrow>
   put_all kvs els x = Some v"
proof (induction kvs arbitrary: els)
  case Nil
  then show ?case by simp
next
  case (Cons p kvs)
  obtain y c where p: "p = (y, c)" by (cases p)
  have d: "distinct (map fst kvs)" and fresh: "y \<notin> fst ` set kvs" using Cons.prems(1) p by auto
  show ?case
  proof (cases "(x, v) = p")
    case True
    then have xy: "x = y" "v = c" using p by simp_all
    have "put_all kvs (put y c els) x = put y c els x"
      using put_all_other [of x kvs "put y c els"] fresh xy by simp
    also have "\<dots> = Some c" using Cons.prems(3) xy by (simp add: put_same)
    finally show ?thesis using p xy by simp
  next
    case False
    then have mem: "(x, v) \<in> set kvs" using Cons.prems(2) by simp
    have "put y c els x \<noteq> None" using Cons.prems(3) by (simp add: put_dom)
    from Cons.IH [of "put y c els", OF d mem this] show ?thesis using p by simp
  qed
qed

lemma show_prop_ok:
  "m \<noteq> JNull \<Longrightarrow> m \<noteq> JUndefined \<Longrightarrow>
   show_prop x g m k w = (Inr (), w\<lparr>elements := put x (g (prop_of m k)) (elements w)\<rparr>)"
  by (simp add: show_prop_def bind_js_def lift_js_def get_prop_prop hideLoading_put)

lemma block_FHIR:
  "m \<noteq> JNull \<Longrightarrow> m \<noteq> JUndefined \<Longrightarrow>
   run_all
       [show_prop ''fhirPatients'' (formatNumber e) m ''active_patients'',
        show_prop ''fhirRequests'' (formatNumber e) m ''requests_per_minute'',
        show_prop ''fhirUptime'' (formatPercentage e) m ''uptime_percentage''] w =
   (Inr (), w\<lparr>elements := put_all (display e FHIR m) (elements w)\<rparr>)"
  by (simp add: show_prop_ok bind_js_def return_js_def)

lemma block_HL7:
  "m \<noteq> JNull \<Longrightarrow> m \<noteq> JUndefined \<Longrightarrow>
   run_all
       [show_prop ''hl7Messages'' (formatNumber e) m ''daily_message_count'',
        show_prop ''hl7MostCommon'' (\<lambda>v. v) m ''most_common_type'',
        show_prop ''hl7ProcessingTime'' (template e ''s'') m ''avg_processing_time''] w =
   (Inr (), w\<lparr>elements := put_all (display e HL7 m) (elements w)\<rparr>)"
  by (simp add: show_prop_ok bind_js_def return_js_def)

lemma block_Epic:
  "m \<noteq> JNull \<Longrightarrow> m \<noteq> JUndefined \<Longrightarrow>
   run_all
       [show_prop ''epicProviderOrgs'' (formatNumber e) m ''provider_organizations'',
        show_prop ''epicPatientRecords'' (\<lambda>v. v) m ''patient_records'',
        show_prop ''epicResponseTime'' (template e ''ms'') m ''response_time_ms''] w =
   (Inr (), w\<lparr>elements := put_all (display e Epic m) (elements w)\<rparr>)"
  by (simp add: show_prop_ok bind_js_def return_js_def)

lemma block_Azure:
  "m \<noteq> JNull \<Longrightarrow> m \<noteq> JUndefined \<Longrightarrow>
   run_all
       [show_prop ''azureSLA'' (formatPercentage e) m ''sla_compliance'',
        show_prop ''azureDataProcessed'' (template e ''TB'') m ''data_processed_tb'',
        show_prop ''azureApiCalls'' (formatNumber e) m ''api_calls_per_second''] w =
   (Inr (), w\<lparr>elements := put_all (display e Azure m) (elements w)\<rparr>)"
  by (simp add: show_prop_ok bind_js_def return_js_def)

lemma fails_elements:
  assumes "fetched e q = None"
  shows "elements (snd (bind_js (fetchAPI e apiClient (endpoint_of q) no_options) g w)) = elements w"
proof -
  have "keeps elements (bind_js (fetchAPI e apiClient (endpoint_of q) no_options) g)"
    by (rule keeps_bind_fails [OF fetched_fails [OF assms]]) (rule keeps_fetchAPI, simp)
  then show ?thesis by (rule keepsD)
qed

lemma distinct_display: "distinct (map fst (display e q m))"
  by (cases q) simp_all

lemma display_widgets: "map fst (display e q m) = widgets q"
  by (cases q) simp_all

lemma put_all_append: "put_all (kvs @ kvs') els = put_all kvs' (put_all kvs els)"
  by (induction kvs arbitrary: els) (simp_all add: split_paired_all)

lemma elements_refreshAllMetrics:
  "elements (snd (refreshAllMetrics e w)) = elements (snd (refreshAllMetrics_try e w))"
  by (cases "refreshAllMetrics_try e w")
     (auto simp: refreshAllMetrics_def catch_js_def console_error_def split: sum.splits)

lemma fails_case:
  "fetched e q = None \<Longrightarrow>
   elements (snd (case fetchAPI e apiClient (endpoint_of q) no_options w of
                    (Inl err, w') \<Rightarrow> (Inl err, w')
                  | (Inr x, w') \<Rightarrow> g x w')) = elements w"
  using fails_elements [of e q g w] by (simp add: bind_js_def)

lemma try_HL7_fails:
  assumes "fetched e HL7 = None" and "fetched e FHIR = Some m1" and "m1 \<noteq> JNull" "m1 \<noteq> JUndefined"
  shows "elements (snd (refreshAllMetrics_try e w)) = put_all (display e FHIR m1) (elements w)"
proof -
  note f1 = fetched_ok [OF assms(2), simplified]
  note b1 = block_FHIR [OF assms(3,4)]
  note fail = fails_case [OF assms(1), simplified]
  show ?thesis
    unfolding refreshAllMetrics_try_def getFHIRMetrics_def getHL7Metrics_def
    by (simp add: bind_js_def f1 b1 fail del: display.simps run_all.simps)
qed

lemma try_Epic_fails:
  assumes "fetched e Epic = None" and "fetched e FHIR = Some m1" and "m1 \<noteq> JNull" "m1 \<noteq> JUndefined"
    and "fetched e HL7 = Some m2" and "m2 \<noteq> JNull" "m2 \<noteq> JUndefined"
  shows "elements (snd (refreshAllMetrics_try e w)) =
         put_all (display e FHIR m1 @ display e HL7 m2) (elements w)"
proof -
  note f1 = fetched_ok [OF assms(2), simplified]
  note b1 = block_FHIR [OF assms(3,4)]
  note f2 = fetched_ok [OF assms(5), simplified]
  note b2 = block_HL7 [OF assms(6,7)]
  note fail = fails_case [OF assms(1), simplified]
  show ?thesis
    unfolding refreshAllMetrics_try_def getFHIRMetrics_def getHL7Metrics_def getEpicMetrics_def
    by (simp add: bind_js_def f1 b1 f2 b2 fail put_all_append del: display.simps run_all.simps)
qed

lemma try_Azure_fails:
  assumes "fetched e Azure = None" and "fetched e FHIR = Some m1" and "m1 \<noteq> JNull" "m1 \<noteq> JUndefined"
    and "fetched e HL7 = Some m2" and "m2 \<noteq> JNull" "m2 \<noteq> JUndefined"
    and "fetched e Epic = Some m3" and "m3 \<noteq> JNull" "m3 \<noteq> JUndefined"
  shows "elements (snd (refreshAllMetrics_try e w)) =
         put_all (display e FHIR m1 @ display e HL7 m2 @ display e Epic m3) (elements w)"
proof -
  note f1 = fetched_ok [OF assms(2), simplified]
  note b1 = block_FHIR [OF assms(3,4)]
  note f2 = fetched_ok [OF assms(5), simplified]
  note b2 = block_HL7 [OF assms(6,7)]
  note f3 = fetched_ok [OF assms(8), simplified]
  note b3 = block_Epic [OF assms(9,10)]
  note fail = fails_case [OF assms(1), simplified]
  show ?thesis
    unfolding refreshAllMetrics_try_def getFHIRMetrics_def getHL7Metrics_def getEpicMetrics_def
      getAzureMetrics_def
    by (simp add: bind_js_def f1 b1 f2 b2 f3 b3 fail put_all_append del: display.simps run_all.simps)
qed

lemma widgets_apart:
  "x \<in> set (widgets q) \<Longrightarrow> position q' < position q \<Longrightarrow> x \<notin> set (widgets q')"
  by (cases q; cases q') auto

lemma before_HL7: "position q' < position HL7 \<Longrightarrow> q' = FHIR"
  by (cases q') simp_all

lemma before_Epic: "position q' < position Epic \<Longrightarrow> q' = FHIR \<or> q' = HL7"
  by (cases q') simp_all

lemma before_Azure: "position q' < position Azure \<Longrightarrow> q' = FHIR \<or> q' = HL7 \<or> q' = Epic"
  by (cases q') simp_all

lemma all_before_Epic:
  "(\<forall>q'. position q' < position Epic \<longrightarrow> P q') = (P FHIR \<and> P HL7)"
proof
  assume a: "\<forall>q'. position q' < position Epic \<longrightarrow> P q'"
  show "P FHIR \<and> P HL7" using a [THEN spec, of FHIR] a [THEN spec, of HL7] by simp
next
  assume a: "P FHIR \<and> P HL7"
  show "\<forall>q'. position q' < position Epic \<longrightarrow> P q'"
  proof (intro allI impI)
    fix q' assume "position q' < position Epic"
    then have "q' = FHIR \<or> q' = HL7" by (rule before_Epic)
    then show "P q'" using a by auto
  qed
qed

lemma fetched_service:
  "fetched (host (service routes)) q =
     (case map_of routes (endpoint_of q) of
        None \<Rightarrow> None
      | Some Rejected \<Rightarrow> None
      | Some (Responded r) \<Rightarrow> if ok r then json r else None)"
  by (simp add: fetched_def host_def service_def split: option.splits)

lemma ok_json_ok:
  "(case json_ok v of Rejected \<Rightarrow> None | Responded r \<Rightarrow> if ok r then json r else None) = Some v"
  by (simp add: json_ok_def ok_def)

lemma fhir_down_fetched:
  "fetched (host fhir_down) FHIR = None"
  "fetched (host fhir_down) HL7 = Some hl7_body"
  "fetched (host fhir_down) Epic = Some epic_body"
  "fetched (host fhir_down) Azure = Some azure_body"
  by (simp_all add: fhir_down_def fetched_service ok_json_ok)

lemma epic_down_fetched:
  "fetched (host epic_down) FHIR = Some fhir_body"
  "fetched (host epic_down) HL7 = Some hl7_body"
  "fetched (host epic_down) Epic = None"
  "fetched (host epic_down) Azure = Some azure_body"
  by (simp_all add: epic_down_def fetched_service ok_json_ok)

lemma dashboard_elements:
  "elements dashboard ''fhirPatients'' = Some (JStr ''--'')"
  "elements dashboard ''hl7Messages'' = Some (JStr ''--'')"
  "elements dashboard ''epicProviderOrgs'' = Some (JStr ''--'')"
  "elements dashboard ''azureSLA'' = Some (JStr ''--'')"
  "elements dashboard ''auditLogsToday'' = Some (JStr ''--'')"
  by (simp_all add: dashboard_def page_def)

lemma formatNumber_host:
  "formatNumber (host net) (JNum (Fin r)) =
     JStr ((if r < 0 then ''-'' else []) @ dec_digits (nat \<lfloor>\<bar>r\<bar>\<rfloor>))"
  by (simp add: formatNumber_def host_def integer_digits_def)

lemma digits_305: "dec_digits 305 = ''305''"
  by code_simp

lemma shown_numbers:
  "formatNumber (host net) (prop_of fhir_body ''active_patients'') = JStr ''1247''"
  "formatNumber (host net) (prop_of hl7_body ''daily_message_count'') = JStr ''500''"
  "formatNumber (host net) (prop_of epic_body ''provider_organizations'') = JStr ''305''"
  by (simp_all add: fhir_body_def hl7_body_def epic_body_def prop_of_def num_def
      formatNumber_host digits_1247 digits_500 digits_305)

text \<open>
  C1, as the code has it. The four fetches of a refresh cycle are awaited one after the
  other inside one \<^verbatim>\<open>try\<close> block, so the first fetch that fails ends the cycle. The
  cycle returns normally. The widgets of the failing query keep their content, and so
  does every element that is not a widget of an earlier query: the widgets of the later
  queries and the alert elements are not updated, although their fetches would have
  succeeded. When the earlier queries were answered with bodies other than \<^verbatim>\<open>null\<close>,
  each of their widgets that exists on the page shows the value of its answer.
\<close>

theorem refreshAllMetrics_stops_at_failure:
  assumes fails: "fetched e q = None"
  shows "fst (refreshAllMetrics e w) = Inr () \<and>
         (\<forall>x\<in>set (widgets q). elements (snd (refreshAllMetrics e w)) x = elements w x) \<and>
         (\<forall>x. (\<forall>q'. position q' < position q \<longrightarrow> x \<notin> set (widgets q')) \<longrightarrow>
              elements (snd (refreshAllMetrics e w)) x = elements w x) \<and>
         ((\<forall>q'. position q' < position q \<longrightarrow>
              (\<exists>m. fetched e q' = Some m \<and> m \<noteq> JNull \<and> m \<noteq> JUndefined)) \<longrightarrow>
          (\<forall>q' m x v. position q' < position q \<and> fetched e q' = Some m \<and>
               (x, v) \<in> set (display e q' m) \<and> elements w x \<noteq> None \<longrightarrow>
               elements (snd (refreshAllMetrics e w)) x = Some v))"
proof -
  have a: "fst (refreshAllMetrics e w) = Inr ()"
    by (simp add: refreshAllMetrics_def catch_logged_ok)
  note el = elements_refreshAllMetrics [of e w]
  have b: "elements (snd (refreshAllMetrics e w)) x = elements w x"
    if "\<forall>q'. position q' < position q \<longrightarrow> x \<notin> set (widgets q')" for x
    using keepsD [OF refresh_frame [OF fails that], of w] el by simp
  have c: "\<forall>x\<in>set (widgets q). elements (snd (refreshAllMetrics e w)) x = elements w x"
  proof
    fix x assume "x \<in> set (widgets q)"
    then have "\<forall>q'. position q' < position q \<longrightarrow> x \<notin> set (widgets q')"
      by (simp add: widgets_apart)
    then show "elements (snd (refreshAllMetrics e w)) x = elements w x" by (rule b)
  qed
  have d: "elements (snd (refreshAllMetrics e w)) x = Some v"
    if ok: "\<forall>q'. position q' < position q \<longrightarrow>
              (\<exists>m. fetched e q' = Some m \<and> m \<noteq> JNull \<and> m \<noteq> JUndefined)"
      and before: "position q' < position q" and body: "fetched e q' = Some m"
      and shown: "(x, v) \<in> set (display e q' m)" and there: "elements w x \<noteq> None"
    for q' m x v
  proof (cases q)
    case FHIR
    then show ?thesis using before by simp
  next
    case HL7
    obtain m1 where m1: "fetched e FHIR = Some m1" "m1 \<noteq> JNull" "m1 \<noteq> JUndefined"
      using ok [THEN spec, of FHIR] HL7 by auto
    have q': "q' = FHIR" using before HL7 by (simp add: before_HL7)
    have "elements (snd (refreshAllMetrics_try e w)) = put_all (display e FHIR m1) (elements w)"
      using try_HL7_fails [OF _ m1] fails HL7 by simp
    moreover have "put_all (display e FHIR m1) (elements w) x = Some v"
    proof -
      have mem: "(x, v) \<in> set (display e FHIR m1)" using shown body q' m1 by simp
      have dist: "distinct (map fst (display e FHIR m1))" by (rule distinct_display)
      show ?thesis by (rule put_all_member [of _ x v "elements w", OF dist mem there])
    qed
    ultimately show ?thesis using el by simp
  next
    case Epic
    obtain m1 where m1: "fetched e FHIR = Some m1" "m1 \<noteq> JNull" "m1 \<noteq> JUndefined"
      using ok [THEN spec, of FHIR] Epic by auto
    obtain m2 where m2: "fetched e HL7 = Some m2" "m2 \<noteq> JNull" "m2 \<noteq> JUndefined"
      using ok [THEN spec, of HL7] Epic by auto
    have q': "q' = FHIR \<or> q' = HL7" using before Epic by (simp add: before_Epic)
    have mem: "(x, v) \<in> set (display e FHIR m1 @ display e HL7 m2)"
      using q' shown body m1 m2 by (elim disjE) (simp_all del: display.simps)
    have dist: "distinct (map fst (display e FHIR m1 @ display e HL7 m2))"
      by (simp add: display_widgets)
    have "elements (snd (refreshAllMetrics_try e w)) =
            put_all (display e FHIR m1 @ display e HL7 m2) (elements w)"
      using try_Epic_fails [OF _ m1 m2] fails Epic by simp
    moreover have "put_all (display e FHIR m1 @ display e HL7 m2) (elements w) x = Some v"
      by (rule put_all_member [of _ x v "elements w", OF dist mem there])
    ultimately show ?thesis using el by simp
  next
    case Azure
    obtain m1 where m1: "fetched e FHIR = Some m1" "m1 \<noteq> JNull" "m1 \<noteq> JUndefined"
      using ok [THEN spec, of FHIR] Azure by auto
    obtain m2 where m2: "fetched e HL7 = Some m2" "m2 \<noteq> JNull" "m2 \<noteq> JUndefined"
      using ok [THEN spec, of HL7] Azure by auto
    obtain m3 where m3: "fetched e Epic = Some m3" "m3 \<noteq> JNull" "m3 \<noteq> JUndefined"
      using ok [THEN spec, of Epic] Azure by auto
    have q': "q' = FHIR \<or> q' = HL7 \<or> q' = Epic" using before Azure by (simp add: before_Azure)
    have mem: "(x, v) \<in> set (display e FHIR m1 @ display e HL7 m2 @ display e Epic m3)"
      using q' shown body m1 m2 m3 by (elim disjE) (simp_all del: display.simps)
    have dist: "distinct (map fst (display e FHIR m1 @ display e HL7 m2 @ display e Epic m3))"
      by (simp add: display_widgets)
    have "elements (snd (refreshAllMetrics_try e w)) =
            put_all (display e FHIR m1 @ display e HL7 m2 @ display e Epic m3) (elements w)"
      using try_Azure_fails [OF _ m1 m2 m3] fails Azure by simp
    moreover have "put_all (display e FHIR m1 @ display e HL7 m2 @ display e Epic m3)
                     (elements w) x = Some v"
      by (rule put_all_member [of _ x v "elements w", OF dist mem there])
    ultimately show ?thesis using el by simp
  qed
  show ?thesis
  proof (intro conjI)
    show "fst (refreshAllMetrics e w) = Inr ()" by (rule a)
    show "\<forall>x\<in>set (widgets q). elements (snd (refreshAllMetrics e w)) x = elements w x"
      by (rule c)
    show "\<forall>x. (\<forall>q'. position q' < position q \<longrightarrow> x \<notin> set (widgets q')) \<longrightarrow>
              elements (snd (refreshAllMetrics e w)) x = elements w x"
      using b by simp
    show "(\<forall>q'. position q' < position q \<longrightarrow>
              (\<exists>m. fetched e q' = Some m \<and> m \<noteq> JNull \<and> m \<noteq> JUndefined)) \<longrightarrow>
          (\<forall>q' m x v. position q' < position q \<and> fetched e q' = Some m \<and>
               (x, v) \<in> set (display e q' m) \<and> elements w x \<noteq> None \<longrightarrow>
               elements (snd (refreshAllMetrics e w)) x = Some v)"
    proof (intro impI allI)
      fix q' m x v
      assume ok: "\<forall>q'. position q' < position q \<longrightarrow>
              (\<exists>m. fetched e q' = Some m \<and> m \<noteq> JNull \<and> m \<noteq> JUndefined)"
        and h: "position q' < position q \<and> fetched e q' = Some m \<and>
               (x, v) \<in> set (display e q' m) \<and> elements w x \<noteq> None"
      from h have h1: "position q' < position q" and h2: "fetched e q' = Some m"
        and h3: "(x, v) \<in> set (display e q' m)" and h4: "elements w x \<noteq> None"
        by simp_all
      show "elements (snd (refreshAllMetrics e w)) x = Some v"
        by (rule d [OF ok h1 h2 h3 h4])
    qed
  qed
qed

text \<open>
  The Epic endpoint is down and the three others answer: the FHIR and HL7 widgets show
  the new values, the Epic widgets, the Azure widgets and the alert elements still show
  \<^verbatim>\<open>--\<close>.
\<close>

theorem refreshAllMetrics_stops_at_failure_witness:
  "fetched (host epic_down) Epic = None \<and>
   fetched (host epic_down) FHIR = Some fhir_body \<and>
   fetched (host epic_down) HL7 = Some hl7_body \<and>
   fetched (host epic_down) Azure = Some azure_body \<and>
   fst (refreshAllMetrics (host epic_down) dashboard) = Inr () \<and>
   elements (snd (refreshAllMetrics (host epic_down) dashboard)) ''epicProviderOrgs'' =
     Some (JStr ''--'') \<and>
   elements (snd (refreshAllMetrics (host epic_down) dashboard)) ''azureSLA'' =
     Some (JStr ''--'') \<and>
   elements (snd (refreshAllMetrics (host epic_down) dashboard)) ''auditLogsToday'' =
     Some (JStr ''--'') \<and>
   elements (snd (refreshAllMetrics (host epic_down) dashboard)) ''fhirPatients'' =
     Some (JStr ''1247'') \<and>
   elements (snd (refreshAllMetrics (host epic_down) dashboard)) ''hl7Messages'' =
     Some (JStr ''500'')"
proof -
  have fhir: "fhir_body \<noteq> JNull \<and> fhir_body \<noteq> JUndefined"
    and hl7: "hl7_body \<noteq> JNull \<and> hl7_body \<noteq> JUndefined"
    by (simp_all add: fhir_body_def hl7_body_def)
  note main = refreshAllMetrics_stops_at_failure [OF epic_down_fetched(3), of dashboard]
  note a = main [THEN conjunct1]
  note b = main [THEN conjunct2, THEN conjunct1]
  note c = main [THEN conjunct2, THEN conjunct2, THEN conjunct1]
  have answered: "\<forall>q'. position q' < position Epic \<longrightarrow>
      (\<exists>m. fetched (host epic_down) q' = Some m \<and> m \<noteq> JNull \<and> m \<noteq> JUndefined)"
    unfolding all_before_Epic by (simp add: epic_down_fetched fhir hl7)
  note d = main [THEN conjunct2, THEN conjunct2, THEN conjunct2, THEN mp, OF answered]
  have "position FHIR < position Epic \<and> fetched (host epic_down) FHIR = Some fhir_body \<and>
      (''fhirPatients'', JStr ''1247'') \<in> set (display (host epic_down) FHIR fhir_body) \<and>
      elements dashboard ''fhirPatients'' \<noteq> None"
    by (simp add: epic_down_fetched dashboard_elements shown_numbers)
  then have e: "elements (snd (refreshAllMetrics (host epic_down) dashboard)) ''fhirPatients'' =
     Some (JStr ''1247'')"
    by (rule d [THEN spec, THEN spec, THEN spec, THEN spec, THEN mp])
  have "position HL7 < position Epic \<and> fetched (host epic_down) HL7 = Some hl7_body \<and>
      (''hl7Messages'', JStr ''500'') \<in> set (display (host epic_down) HL7 hl7_body) \<and>
      elements dashboard ''hl7Messages'' \<noteq> None"
    by (simp add: epic_down_fetched dashboard_elements shown_numbers)
  then have f: "elements (snd (refreshAllMetrics (host epic_down) dashboard)) ''hl7Messages'' =
     Some (JStr ''500'')"
    by (rule d [THEN spec, THEN spec, THEN spec, THEN spec, THEN mp])
  have "''epicProviderOrgs'' \<in> set (widgets Epic)" by simp
  then have g: "elements (snd (refreshAllMetrics (host epic_down) dashboard)) ''epicProviderOrgs'' =
     Some (JStr ''--'')"
    using b [THEN bspec, of "''epicProviderOrgs''"] by (simp only: dashboard_elements)
  have "\<forall>q'. position q' < position Epic \<longrightarrow> ''azureSLA'' \<notin> set (widgets q')"
    unfolding all_before_Epic by simp
  then have h: "elements (snd (refreshAllMetrics (host epic_down) dashboard)) ''azureSLA'' =
     Some (JStr ''--'')"
    using c [THEN spec, of "''azureSLA''"] by (simp only: dashboard_elements)
  have "\<forall>q'. position q' < position Epic \<longrightarrow> ''auditLogsToday'' \<notin> set (widgets q')"
    unfolding all_before_Epic by simp
  then have i: "elements (snd (refreshAllMetrics (host epic_down) dashboard)) ''auditLogsToday'' =
     Some (JStr ''--'')"
    using c [THEN spec, of "''auditLogsToday''"] by (simp only: dashboard_elements)
  from a e f g h i show ?thesis by (simp only: epic_down_fetched simp_thms)
qed

text \<open>
  The FHIR endpoint is down and the three others answer. The cycle returns normally and
  no element of the page has changed: the HL7 widget still shows \<^verbatim>\<open>--\<close> where the
  answer of its endpoint would show 500, the Epic widget \<^verbatim>\<open>--\<close> where it would show
  305.
\<close>

theorem failed_FHIR_fetch_stops_the_cycle:
  "fetched (host fhir_down) FHIR = None \<and>
   fetched (host fhir_down) HL7 = Some hl7_body \<and>
   fetched (host fhir_down) Epic = Some epic_body \<and>
   fetched (host fhir_down) Azure = Some azure_body \<and>
   map_of (display (host fhir_down) HL7 hl7_body) ''hl7Messages'' = Some (JStr ''500'') \<and>
   map_of (display (host fhir_down) Epic epic_body) ''epicProviderOrgs'' = Some (JStr ''305'') \<and>
   elements dashboard ''hl7Messages'' = Some (JStr ''--'') \<and>
   elements dashboard ''epicProviderOrgs'' = Some (JStr ''--'') \<and>
   fst (refreshAllMetrics (host fhir_down) dashboard) = Inr () \<and>
   elements (snd (refreshAllMetrics (host fhir_down) dashboard)) = elements dashboard \<and>
   elements (snd (refreshAllMetrics (host fhir_down) dashboard)) ''hl7Messages'' =
     Some (JStr ''--'') \<and>
   elements (snd (refreshAllMetrics (host fhir_down) dashboard)) ''epicProviderOrgs'' =
     Some (JStr ''--'')"
proof -
  have unchanged:
    "elements (snd (refreshAllMetrics (host fhir_down) dashboard)) = elements dashboard"
    unfolding elements_refreshAllMetrics refreshAllMetrics_try_def getFHIRMetrics_def
    by (rule fails_elements [OF fhir_down_fetched(1), simplified])
  have returns: "fst (refreshAllMetrics (host fhir_down) dashboard) = Inr ()"
    by (simp add: refreshAllMetrics_def catch_logged_ok)
  show ?thesis
    by (simp add: unchanged returns fhir_down_fetched dashboard_elements shown_numbers)
qed

end
